theory Spec2Isabelle
  imports Complex_Main "HOL-Library.AList" "HOL-Library.Word"
begin

section \<open>JSON objects of the engine\<close>

text \<open>
  The SDK (\<^verbatim>\<open>PlayerGoldSDK.cpp\<close>) builds its request bodies and reads its responses
  through the engine's \<^verbatim>\<open>FJsonObject\<close>, which belongs to Unreal Engine and not to the
  repository. An object is a table from field names to values; \<^verbatim>\<open>SetStringField\<close> and
  \<^verbatim>\<open>SetNumberField\<close> store a field, replacing one of the same name. The association
  list keeps the order in which the fields were first set.

  A number of the engine is a \<^verbatim>\<open>double\<close>. The model takes it as a \<^typ>\<open>real\<close>: the
  arithmetic of doubles is exact in the model, and the conversions to \<^verbatim>\<open>float\<close> and to
  \<^verbatim>\<open>int32\<close> that the SDK performs are written out below.
\<close>

datatype FJsonValue =
    FJsonValueNull
  | FJsonValueString string
  | FJsonValueNumber real
  | FJsonValueBoolean bool
  | FJsonValueArray "FJsonValue list"
  | FJsonValueObject "(string \<times> FJsonValue) list"

type_synonym FJsonObject = "(string \<times> FJsonValue) list"

definition SetStringField :: "string \<Rightarrow> string \<Rightarrow> FJsonObject \<Rightarrow> FJsonObject" where
  "SetStringField FieldName StringValue Obj = AList.update FieldName (FJsonValueString StringValue) Obj"

definition SetNumberField :: "string \<Rightarrow> real \<Rightarrow> FJsonObject \<Rightarrow> FJsonObject" where
  "SetNumberField FieldName Number Obj = AList.update FieldName (FJsonValueNumber Number) Obj"

section \<open>What the SDK takes from the engine at run time\<close>

text \<open>
  \<^verbatim>\<open>FJsonSerializer::Serialize\<close> and \<^verbatim>\<open>FJsonSerializer::Deserialize\<close> (the writer and
  the reader of JSON text) and the clock \<^verbatim>\<open>FPlatformTime::Seconds()\<close> are engine code.
  They enter every function of the model as the parameter \<open>E\<close>: \<open>Deserialize E s\<close> is
  \<open>None\<close> where the engine's reader returns \<^verbatim>\<open>false\<close>, and \<open>Seconds E\<close> is the value the
  clock has during the call (each function of the SDK reads it at most once).

  So do three behaviours that the repository does not fix. \<open>ConvertToNumber E\<close> and
  \<open>ConvertToString E\<close> are what the engine's accessors make of a field that is not of
  the requested kind (a numeric string read as a number, a number read as a string, a
  boolean, an array, an object). \<open>CastOutOfRange E x\<close> is what the cast of a
  \<^verbatim>\<open>double\<close> to \<^verbatim>\<open>int32\<close> yields when \<open>x\<close> does not fit, where C++ leaves the result
  undefined and the processors differ.
\<close>

record engine =
  Serialize :: "FJsonObject \<Rightarrow> string"
  Deserialize :: "string \<Rightarrow> FJsonObject option"
  Seconds :: real
  ConvertToNumber :: "FJsonValue \<Rightarrow> real"
  ConvertToString :: "FJsonValue \<Rightarrow> string"
  CastOutOfRange :: "real \<Rightarrow> 32 word"

text \<open>
  The accessors \<^verbatim>\<open>GetStringField\<close>, \<^verbatim>\<open>GetNumberField\<close> and \<^verbatim>\<open>GetIntegerField\<close> do
  not fail on a field that is absent: the engine logs the problem and reads a null
  value, which gives the default of the requested kind (the empty string, zero). A
  field of the requested kind gives its value, and a field of another kind gives what
  the engine converts it to.
\<close>

definition GetField :: "FJsonObject \<Rightarrow> string \<Rightarrow> FJsonValue" where
  "GetField Obj FieldName = (case map_of Obj FieldName of Some v \<Rightarrow> v | None \<Rightarrow> FJsonValueNull)"

fun AsString :: "engine \<Rightarrow> FJsonValue \<Rightarrow> string" where
  "AsString E (FJsonValueString s) = s"
| "AsString E FJsonValueNull = []"
| "AsString E v = ConvertToString E v"

fun AsNumber :: "engine \<Rightarrow> FJsonValue \<Rightarrow> real" where
  "AsNumber E (FJsonValueNumber x) = x"
| "AsNumber E FJsonValueNull = 0"
| "AsNumber E v = ConvertToNumber E v"

definition GetStringField :: "engine \<Rightarrow> FJsonObject \<Rightarrow> string \<Rightarrow> string" where
  "GetStringField E Obj FieldName = AsString E (GetField Obj FieldName)"

definition GetNumberField :: "engine \<Rightarrow> FJsonObject \<Rightarrow> string \<Rightarrow> real" where
  "GetNumberField E Obj FieldName = AsNumber E (GetField Obj FieldName)"

text \<open>
  \<^verbatim>\<open>GetIntegerField\<close> casts the number to \<^verbatim>\<open>int32\<close>. The cast cuts the fraction off
  towards zero; the result fits 32 bits exactly when the number lies strictly between
  \<^verbatim>\<open>-2^31 - 1\<close> and \<^verbatim>\<open>2^31\<close>.
\<close>

definition int32_of_double :: "engine \<Rightarrow> real \<Rightarrow> 32 word" where
  "int32_of_double E x =
     (if - (2 ^ 31) - 1 < x \<and> x < 2 ^ 31
      then word_of_int (if 0 \<le> x then \<lfloor>x\<rfloor> else \<lceil>x\<rceil>)
      else CastOutOfRange E x)"

definition GetIntegerField :: "engine \<Rightarrow> FJsonObject \<Rightarrow> string \<Rightarrow> 32 word" where
  "GetIntegerField E Obj FieldName = int32_of_double E (AsNumber E (GetField Obj FieldName))"

section \<open>Narrowing a \<^verbatim>\<open>double\<close> to a \<^verbatim>\<open>float\<close>\<close>

text \<open>
  The balance delegate takes a \<^verbatim>\<open>float\<close>, and \<^verbatim>\<open>OnBalanceResponse\<close> stores the number
  it reads in a \<^verbatim>\<open>float\<close> variable. A \<^verbatim>\<open>float\<close> is an IEEE 754 binary32 value: a multiple
  of \<^verbatim>\<open>2^(e-23)\<close> with fewer than \<^verbatim>\<open>2^24\<close> units, for an exponent \<open>e\<close> from -126 to 127,
  or an infinity. The conversion rounds to the nearest such value, a tie to the one
  with an even number of units, and a result of \<^verbatim>\<open>2^128\<close> or more is an infinity.
\<close>

datatype float32 = Finite real | PlusInfinity | MinusInfinity

fun halvings :: "nat \<Rightarrow> real \<Rightarrow> nat" where
  "halvings 0 x = 0"
| "halvings (Suc n) x = (if x < 2 then 0 else Suc (halvings n (x / 2)))"

fun doublings :: "nat \<Rightarrow> real \<Rightarrow> nat" where
  "doublings 0 x = 0"
| "doublings (Suc n) x = (if 1 \<le> x then 0 else Suc (doublings n (2 * x)))"

definition binary32_exponent :: "real \<Rightarrow> int" where
  "binary32_exponent x =
     (if 1 \<le> \<bar>x\<bar> then int (halvings 128 \<bar>x\<bar>) else - int (doublings 126 \<bar>x\<bar>))"

definition binary32_unit :: "int \<Rightarrow> real" where
  "binary32_unit e = (if 23 \<le> e then 2 ^ nat (e - 23) else 1 / 2 ^ nat (23 - e))"

definition round_half_even :: "real \<Rightarrow> int" where
  "round_half_even q =
     (if q - real_of_int \<lfloor>q\<rfloor> < 1 / 2 then \<lfloor>q\<rfloor>
      else if 1 / 2 < q - real_of_int \<lfloor>q\<rfloor> then \<lfloor>q\<rfloor> + 1
      else if even \<lfloor>q\<rfloor> then \<lfloor>q\<rfloor>
      else \<lfloor>q\<rfloor> + 1)"

definition float_of_double :: "real \<Rightarrow> float32" where
  "float_of_double x =
     (let u = binary32_unit (binary32_exponent x);
          y = real_of_int (round_half_even (x / u)) * u
      in if 2 ^ 128 \<le> \<bar>y\<bar> then (if 0 < x then PlusInfinity else MinusInfinity)
         else Finite y)"

section \<open>Delegates, requests and responses\<close>

text \<open>
  A dynamic delegate (\<^verbatim>\<open>DECLARE_DYNAMIC_DELEGATE_OneParam\<close> in \<^verbatim>\<open>PlayerGoldSDK.h\<close>) is
  either unbound or bound to a function of the game, named here by a string; the type
  parameter is the type of its one argument.
\<close>

datatype 'a delegate = Unbound | Bound string

type_synonym FOnBalanceReceived = "float32 delegate"
type_synonym FOnTransactionCreated = "string delegate"
type_synonym FOnError = "string delegate"

text \<open>
  The completion delegate of a request: \<^verbatim>\<open>BindUObject\<close> binds it to one of the three
  response handlers of the SDK, together with the caller's delegates as payload.
\<close>

datatype completion =
    NotBound
  | BindOnAuthenticationResponse
  | BindOnBalanceResponse FOnBalanceReceived FOnError
  | BindOnTransactionResponse FOnTransactionCreated FOnError

record IHttpRequest =
  URL :: string
  Verb :: string
  Headers :: "(string \<times> string) list"
  Content :: string
  OnProcessRequestComplete :: completion

text \<open>
  A response pointer \<^verbatim>\<open>FHttpResponsePtr\<close> is \<open>None\<close> when it is not valid. The status
  code is part of a response, and no function of the SDK reads it.
\<close>

record IHttpResponse =
  GetResponseCode :: int
  GetContentAsString :: string

type_synonym FHttpResponsePtr = "IHttpResponse option"

definition IsValid :: "FHttpResponsePtr \<Rightarrow> bool" where
  "IsValid Response = (Response \<noteq> None)"

section \<open>The subsystem and its effects\<close>

datatype ELogVerbosity = Log | Error

text \<open>
  What the SDK does to the world outside its own members, in the order it happens:
  a request handed to the HTTP module, a delegate of the caller executed on the function
  it is bound to, a line written to the log.
\<close>

datatype effect =
    Sent IHttpRequest
  | BalanceReceived string float32
  | TransactionCreated string string
  | ErrorReported string string
  | Logged ELogVerbosity string

text \<open>
  The members of \<^verbatim>\<open>UPlayerGoldSDK\<close> (\<^verbatim>\<open>HttpModule\<close> apart, a pointer to the engine's
  module), and the effects the object has caused so far.
\<close>

record UPlayerGoldSDK =
  ApiUrl :: string
  ApiKey :: string
  AuthToken :: string
  TokenExpirationTime :: real
  Trace :: "effect list"

definition UE_LOG :: "ELogVerbosity \<Rightarrow> string \<Rightarrow> UPlayerGoldSDK \<Rightarrow> UPlayerGoldSDK" where
  "UE_LOG Verbosity Text this = this\<lparr>Trace := Trace this @ [Logged Verbosity Text]\<rparr>"

definition ProcessRequest :: "IHttpRequest \<Rightarrow> UPlayerGoldSDK \<Rightarrow> UPlayerGoldSDK" where
  "ProcessRequest Request this = this\<lparr>Trace := Trace this @ [Sent Request]\<rparr>"

definition ExecuteIfBound_Balance ::
  "FOnBalanceReceived \<Rightarrow> float32 \<Rightarrow> UPlayerGoldSDK \<Rightarrow> UPlayerGoldSDK" where
  "ExecuteIfBound_Balance D Balance this =
     (case D of Unbound \<Rightarrow> this
      | Bound f \<Rightarrow> this\<lparr>Trace := Trace this @ [BalanceReceived f Balance]\<rparr>)"

definition ExecuteIfBound_Transaction ::
  "FOnTransactionCreated \<Rightarrow> string \<Rightarrow> UPlayerGoldSDK \<Rightarrow> UPlayerGoldSDK" where
  "ExecuteIfBound_Transaction D TransactionHash this =
     (case D of Unbound \<Rightarrow> this
      | Bound f \<Rightarrow> this\<lparr>Trace := Trace this @ [TransactionCreated f TransactionHash]\<rparr>)"

definition ExecuteIfBound_Error ::
  "FOnError \<Rightarrow> string \<Rightarrow> UPlayerGoldSDK \<Rightarrow> UPlayerGoldSDK" where
  "ExecuteIfBound_Error D ErrorMessage this =
     (case D of Unbound \<Rightarrow> this
      | Bound f \<Rightarrow> this\<lparr>Trace := Trace this @ [ErrorReported f ErrorMessage]\<rparr>)"

section \<open>The functions of \<^verbatim>\<open>PlayerGoldSDK.cpp\<close>\<close>

text \<open>
  Each member function takes the object as \<open>this\<close> and returns it, with its members and
  its trace as the function leaves them. An \<^verbatim>\<open>FString\<close> is a \<^typ>\<open>string\<close>; the operator
  \<^verbatim>\<open>+\<close> and \<^verbatim>\<open>FString::Printf\<close> with one \<^verbatim>\<open>%s\<close> are both concatenation.
\<close>

definition Initialize :: "UPlayerGoldSDK \<Rightarrow> UPlayerGoldSDK" where
  "Initialize this =
     UE_LOG Log ''PlayerGold SDK initialized'' (this\<lparr>TokenExpirationTime := 0\<rparr>)"

definition Deinitialize :: "UPlayerGoldSDK \<Rightarrow> UPlayerGoldSDK" where
  "Deinitialize this = UE_LOG Log ''PlayerGold SDK deinitialized'' this"

text \<open>\<^verbatim>\<open>HttpModule->CreateRequest()\<close>: a request with nothing set.\<close>

definition HttpModule_CreateRequest :: IHttpRequest where
  "HttpModule_CreateRequest =
     \<lparr>URL = [], Verb = [], Headers = [], Content = [], OnProcessRequestComplete = NotBound\<rparr>"

definition SetHeader :: "string \<Rightarrow> string \<Rightarrow> IHttpRequest \<Rightarrow> IHttpRequest" where
  "SetHeader HeaderName HeaderValue Request =
     Request\<lparr>Headers := AList.update HeaderName HeaderValue (Headers Request)\<rparr>"

definition CreateRequest :: "UPlayerGoldSDK \<Rightarrow> string \<Rightarrow> string \<Rightarrow> IHttpRequest" where
  "CreateRequest this Endpoint InVerb =
     (let Request0 = HttpModule_CreateRequest;
          Request1 = Request0\<lparr>URL := ApiUrl this @ Endpoint\<rparr>;
          Request2 = Request1\<lparr>Verb := InVerb\<rparr>;
          Request3 = SetHeader ''Content-Type'' ''application/json'' Request2
      in if AuthToken this \<noteq> []
         then SetHeader ''Authorization'' (''Bearer '' @ AuthToken this) Request3
         else Request3)"

definition Authenticate :: "engine \<Rightarrow> UPlayerGoldSDK \<Rightarrow> UPlayerGoldSDK" where
  "Authenticate E this =
     (let Request = CreateRequest this ''/auth/token'' ''POST'';
          JsonObject = SetStringField ''api_key'' (ApiKey this) [];
          OutputString = Serialize E JsonObject
      in ProcessRequest
           (Request\<lparr>Content := OutputString,
                    OnProcessRequestComplete := BindOnAuthenticationResponse\<rparr>) this)"

definition InitializeSDK :: "engine \<Rightarrow> string \<Rightarrow> string \<Rightarrow> UPlayerGoldSDK \<Rightarrow> UPlayerGoldSDK" where
  "InitializeSDK E InApiKey InApiUrl this =
     Authenticate E (this\<lparr>ApiKey := InApiKey, ApiUrl := InApiUrl\<rparr>)"

definition OnAuthenticationResponse ::
  "engine \<Rightarrow> IHttpRequest \<Rightarrow> FHttpResponsePtr \<Rightarrow> bool \<Rightarrow> UPlayerGoldSDK \<Rightarrow> UPlayerGoldSDK" where
  "OnAuthenticationResponse E Request Response bWasSuccessful this =
     (if bWasSuccessful \<and> IsValid Response then
        (case Deserialize E (GetContentAsString (the Response)) of
           Some JsonObject \<Rightarrow>
             (let ExpiresIn = GetIntegerField E JsonObject ''expires_in''
              in UE_LOG Log ''PlayerGold SDK authenticated successfully''
                   (this\<lparr>AuthToken := GetStringField E JsonObject ''token'',
                          TokenExpirationTime := Seconds E + real_of_int (sint ExpiresIn)\<rparr>))
         | None \<Rightarrow> this)
      else UE_LOG Error ''PlayerGold SDK authentication failed'' this)"

definition EnsureAuthenticated :: "engine \<Rightarrow> UPlayerGoldSDK \<Rightarrow> UPlayerGoldSDK" where
  "EnsureAuthenticated E this =
     (if AuthToken this = [] \<or> Seconds E \<ge> TokenExpirationTime this - 300
      then Authenticate E this
      else this)"

definition GetBalance ::
  "engine \<Rightarrow> string \<Rightarrow> FOnBalanceReceived \<Rightarrow> FOnError \<Rightarrow> UPlayerGoldSDK \<Rightarrow> UPlayerGoldSDK" where
  "GetBalance E Address OnSuccess OnError this =
     (let this1 = EnsureAuthenticated E this;
          Endpoint = ''/balance/'' @ Address;
          Request = CreateRequest this1 Endpoint ''GET''
      in ProcessRequest
           (Request\<lparr>OnProcessRequestComplete := BindOnBalanceResponse OnSuccess OnError\<rparr>) this1)"

definition OnBalanceResponse ::
  "engine \<Rightarrow> IHttpRequest \<Rightarrow> FHttpResponsePtr \<Rightarrow> bool \<Rightarrow> FOnBalanceReceived \<Rightarrow> FOnError
     \<Rightarrow> UPlayerGoldSDK \<Rightarrow> UPlayerGoldSDK" where
  "OnBalanceResponse E Request Response bWasSuccessful OnSuccess OnError this =
     (if bWasSuccessful \<and> IsValid Response then
        (case Deserialize E (GetContentAsString (the Response)) of
           Some JsonObject \<Rightarrow>
             (let Balance = float_of_double (GetNumberField E JsonObject ''balance'')
              in ExecuteIfBound_Balance OnSuccess Balance this)
         | None \<Rightarrow> ExecuteIfBound_Error OnError ''Failed to parse balance response'' this)
      else
        (let ErrorMsg = (if IsValid Response then GetContentAsString (the Response)
                         else ''Request failed'')
         in ExecuteIfBound_Error OnError ErrorMsg this))"

definition CreateTransaction ::
  "engine \<Rightarrow> string \<Rightarrow> string \<Rightarrow> real \<Rightarrow> string \<Rightarrow> FOnTransactionCreated \<Rightarrow> FOnError
     \<Rightarrow> UPlayerGoldSDK \<Rightarrow> UPlayerGoldSDK" where
  "CreateTransaction E FromAddress ToAddress Amount PrivateKey OnSuccess OnError this =
     (let this1 = EnsureAuthenticated E this;
          Request = CreateRequest this1 ''/transaction'' ''POST'';
          JsonObject =
            SetNumberField ''fee'' 0.01
              (SetStringField ''private_key'' PrivateKey
                (SetNumberField ''amount'' Amount
                  (SetStringField ''to_address'' ToAddress
                    (SetStringField ''from_address'' FromAddress []))));
          OutputString = Serialize E JsonObject
      in ProcessRequest
           (Request\<lparr>Content := OutputString,
                    OnProcessRequestComplete := BindOnTransactionResponse OnSuccess OnError\<rparr>)
           this1)"

definition OnTransactionResponse ::
  "engine \<Rightarrow> IHttpRequest \<Rightarrow> FHttpResponsePtr \<Rightarrow> bool \<Rightarrow> FOnTransactionCreated \<Rightarrow> FOnError
     \<Rightarrow> UPlayerGoldSDK \<Rightarrow> UPlayerGoldSDK" where
  "OnTransactionResponse E Request Response bWasSuccessful OnSuccess OnError this =
     (if bWasSuccessful \<and> IsValid Response then
        (case Deserialize E (GetContentAsString (the Response)) of
           Some JsonObject \<Rightarrow>
             (let TransactionHash = GetStringField E JsonObject ''transaction_hash''
              in ExecuteIfBound_Transaction OnSuccess TransactionHash this)
         | None \<Rightarrow> ExecuteIfBound_Error OnError ''Failed to parse transaction response'' this)
      else
        (let ErrorMsg = (if IsValid Response then GetContentAsString (the Response)
                         else ''Request failed'')
         in ExecuteIfBound_Error OnError ErrorMsg this))"

definition GetTransaction :: "engine \<Rightarrow> string \<Rightarrow> UPlayerGoldSDK \<Rightarrow> UPlayerGoldSDK" where
  "GetTransaction E TransactionHash this =
     (let this1 = EnsureAuthenticated E this;
          Endpoint = ''/transaction/'' @ TransactionHash;
          Request = CreateRequest this1 Endpoint ''GET''
      in ProcessRequest Request this1)"

definition GetNetworkStatus :: "UPlayerGoldSDK \<Rightarrow> UPlayerGoldSDK" where
  "GetNetworkStatus this =
     (let Request = CreateRequest this ''/network/status'' ''GET''
      in ProcessRequest Request this)"

definition IsAuthenticated :: "UPlayerGoldSDK \<Rightarrow> bool" where
  "IsAuthenticated this = (AuthToken this \<noteq> [])"

text \<open>
  The HTTP module completes a request by executing its completion delegate, that is the
  handler \<^verbatim>\<open>BindUObject\<close> bound to it, on the response pointer and the success flag.
\<close>

definition ProcessRequestComplete ::
  "engine \<Rightarrow> IHttpRequest \<Rightarrow> FHttpResponsePtr \<Rightarrow> bool \<Rightarrow> UPlayerGoldSDK \<Rightarrow> UPlayerGoldSDK" where
  "ProcessRequestComplete E Request Response bWasSuccessful this =
     (case OnProcessRequestComplete Request of
        NotBound \<Rightarrow> this
      | BindOnAuthenticationResponse \<Rightarrow>
          OnAuthenticationResponse E Request Response bWasSuccessful this
      | BindOnBalanceResponse OnSuccess OnError \<Rightarrow>
          OnBalanceResponse E Request Response bWasSuccessful OnSuccess OnError this
      | BindOnTransactionResponse OnSuccess OnError \<Rightarrow>
          OnTransactionResponse E Request Response bWasSuccessful OnSuccess OnError this)"

section \<open>Observing a call\<close>

text \<open>
  The effects a call has added to the trace, and whether an authentication request (a
  request whose completion is bound to \<^verbatim>\<open>OnAuthenticationResponse\<close>) is among them.
\<close>

definition new_effects :: "UPlayerGoldSDK \<Rightarrow> UPlayerGoldSDK \<Rightarrow> effect list" where
  "new_effects before after = drop (length (Trace before)) (Trace after)"

fun is_authenticate_call :: "effect \<Rightarrow> bool" where
  "is_authenticate_call (Sent Request) =
     (OnProcessRequestComplete Request = BindOnAuthenticationResponse)"
| "is_authenticate_call _ = False"

definition triggers_authenticate :: "UPlayerGoldSDK \<Rightarrow> UPlayerGoldSDK \<Rightarrow> bool" where
  "triggers_authenticate before after = list_ex is_authenticate_call (new_effects before after)"

fun is_callback :: "effect \<Rightarrow> bool" where
  "is_callback (BalanceReceived f Balance) = True"
| "is_callback (TransactionCreated f TransactionHash) = True"
| "is_callback (ErrorReported f ErrorMessage) = True"
| "is_callback _ = False"

section \<open>An engine for the examples\<close>

text \<open>
  The theorems below hold for every engine \<open>E\<close>. Their examples need one engine to run
  on: a reader and a writer of flat JSON objects (string, number, boolean and null
  fields, no escapes, no nesting), which is the shape of every body of this protocol.
  On these bodies the reader accepts what the engine's reader accepts. No example
  reads a field of another kind than the one it asks for, or casts a number that does
  not fit \<^verbatim>\<open>int32\<close>; there the example engine gives the defaults and the least \<^verbatim>\<open>int32\<close>.
\<close>

datatype token = LBrace | RBrace | Colon | Comma | Str string | Atom string

datatype mode = Outside | InString string | InAtom string

definition is_space :: "char \<Rightarrow> bool" where
  "is_space c = (c \<in> set [CHR '' '', CHR 0x09, CHR 0x0A, CHR 0x0D])"

definition feed_outside :: "char \<Rightarrow> token list \<times> mode" where
  "feed_outside c =
     (if c = CHR ''{'' then ([LBrace], Outside)
      else if c = CHR ''}'' then ([RBrace], Outside)
      else if c = CHR '':'' then ([Colon], Outside)
      else if c = CHR '','' then ([Comma], Outside)
      else if is_space c then ([], Outside)
      else if c = CHR 0x22 then ([], InString [])
      else ([], InAtom [c]))"

fun feed :: "mode \<Rightarrow> char \<Rightarrow> (token list \<times> mode) option" where
  "feed Outside c = Some (feed_outside c)"
| "feed (InString acc) c =
     (if c = CHR 0x22 then Some ([Str (rev acc)], Outside)
      else if c = CHR 0x5C then None
      else Some ([], InString (c # acc)))"
| "feed (InAtom acc) c =
     (if c = CHR 0x22 then None
      else if c \<in> set ''{}:,'' \<or> is_space c
      then Some (Atom (rev acc) # fst (feed_outside c), Outside)
      else Some ([], InAtom (c # acc)))"

fun scan :: "mode \<Rightarrow> string \<Rightarrow> token list option" where
  "scan Outside [] = Some []"
| "scan (InString acc) [] = None"
| "scan (InAtom acc) [] = Some [Atom (rev acc)]"
| "scan m (c # cs) =
     (case feed m c of
        None \<Rightarrow> None
      | Some (ts, m') \<Rightarrow> (case scan m' cs of None \<Rightarrow> None | Some us \<Rightarrow> Some (ts @ us)))"

definition is_digit :: "char \<Rightarrow> bool" where
  "is_digit c = (c \<in> set ''0123456789'')"

definition digits_value :: "string \<Rightarrow> nat" where
  "digits_value ds = foldl (\<lambda>n c. 10 * n + (of_char c - 48)) 0 ds"

definition unsigned_of :: "string \<Rightarrow> real option" where
  "unsigned_of s =
     (let whole = takeWhile (\<lambda>c. c \<noteq> CHR ''.'') s;
          rest = dropWhile (\<lambda>c. c \<noteq> CHR ''.'') s
      in if whole = [] \<or> \<not> list_all is_digit whole then None
         else if rest = [] then Some (real (digits_value whole))
         else if tl rest = [] \<or> \<not> list_all is_digit (tl rest) then None
         else Some (real (digits_value whole)
                    + real (digits_value (tl rest)) / 10 ^ length (tl rest)))"

definition number_of :: "string \<Rightarrow> real option" where
  "number_of s =
     (case s of
        [] \<Rightarrow> None
      | c # cs \<Rightarrow> if c = CHR ''-'' then map_option uminus (unsigned_of cs) else unsigned_of s)"

fun value_of :: "token \<Rightarrow> FJsonValue option" where
  "value_of (Str s) = Some (FJsonValueString s)"
| "value_of (Atom a) =
     (if a = ''true'' then Some (FJsonValueBoolean True)
      else if a = ''false'' then Some (FJsonValueBoolean False)
      else if a = ''null'' then Some FJsonValueNull
      else map_option FJsonValueNumber (number_of a))"
| "value_of _ = None"

fun members :: "FJsonObject \<Rightarrow> token list \<Rightarrow> FJsonObject option" where
  "members Obj (Str k # Colon # v # RBrace # []) =
     map_option (\<lambda>x. AList.update k x Obj) (value_of v)"
| "members Obj (Str k # Colon # v # Comma # rest) =
     (case value_of v of None \<Rightarrow> None | Some x \<Rightarrow> members (AList.update k x Obj) rest)"
| "members Obj _ = None"

definition read_flat_object :: "string \<Rightarrow> FJsonObject option" where
  "read_flat_object s =
     (case scan Outside s of
        None \<Rightarrow> None
      | Some ts \<Rightarrow>
          (case ts of
             [LBrace, RBrace] \<Rightarrow> Some []
           | LBrace # rest \<Rightarrow> members [] rest
           | _ \<Rightarrow> None))"

text \<open>The writer prints a number with two decimals.\<close>

fun show_nat :: "nat \<Rightarrow> string" where
  "show_nat n =
     (if n < 10 then [char_of (48 + n)]
      else show_nat (n div 10) @ [char_of (48 + n mod 10)])"

definition show_number :: "real \<Rightarrow> string" where
  "show_number x =
     (let cents = nat \<lfloor>\<bar>x\<bar> * 100\<rfloor>
      in (if x < 0 then ''-'' else [])
         @ show_nat (cents div 100) @ ''.''
         @ show_nat (cents mod 100 div 10) @ show_nat (cents mod 10))"

fun show_value :: "FJsonValue \<Rightarrow> string" where
  "show_value (FJsonValueString s) = [CHR 0x22] @ s @ [CHR 0x22]"
| "show_value (FJsonValueNumber x) = show_number x"
| "show_value (FJsonValueBoolean b) = (if b then ''true'' else ''false'')"
| "show_value _ = ''null''"

fun show_members :: "FJsonObject \<Rightarrow> string" where
  "show_members [] = []"
| "show_members [(k, v)] = [CHR 0x22] @ k @ [CHR 0x22] @ '':'' @ show_value v"
| "show_members ((k, v) # kvs) =
     [CHR 0x22] @ k @ [CHR 0x22] @ '':'' @ show_value v @ '','' @ show_members kvs"

definition write_flat_object :: "FJsonObject \<Rightarrow> string" where
  "write_flat_object Obj = ''{'' @ show_members Obj @ ''}''"

definition example_engine :: engine where
  "example_engine =
     \<lparr>Serialize = write_flat_object, Deserialize = read_flat_object, Seconds = 1000,
      ConvertToNumber = (\<lambda>v. 0), ConvertToString = (\<lambda>v. []),
      CastOutOfRange = (\<lambda>x. - (2 ^ 31))\<rparr>"

text \<open>
  A subsystem that holds a token good until second 4000, and one that has never
  authenticated.
\<close>

definition example_sdk :: UPlayerGoldSDK where
  "example_sdk =
     \<lparr>ApiUrl = ''http://localhost:5000/api/v1'', ApiKey = ''key'', AuthToken = ''tok'',
      TokenExpirationTime = 4000, Trace = []\<rparr>"

definition fresh_sdk :: UPlayerGoldSDK where
  "fresh_sdk =
     \<lparr>ApiUrl = ''http://localhost:5000/api/v1'', ApiKey = ''key'', AuthToken = [],
      TokenExpirationTime = 0, Trace = []\<rparr>"

section \<open>Properties\<close>

lemma CreateRequest_URL: "URL (CreateRequest this Endpoint InVerb) = ApiUrl this @ Endpoint"
  by (simp add: CreateRequest_def HttpModule_CreateRequest_def SetHeader_def Let_def)

lemma CreateRequest_Verb: "Verb (CreateRequest this Endpoint InVerb) = InVerb"
  by (simp add: CreateRequest_def HttpModule_CreateRequest_def SetHeader_def Let_def)

lemma CreateRequest_Headers:
  "Headers (CreateRequest this Endpoint InVerb) =
     (''Content-Type'', ''application/json'')
       # (if AuthToken this = [] then [] else [(''Authorization'', ''Bearer '' @ AuthToken this)])"
  by (simp add: CreateRequest_def HttpModule_CreateRequest_def SetHeader_def Let_def)

lemma CreateRequest_cong:
  "ApiUrl a = ApiUrl b \<Longrightarrow> AuthToken a = AuthToken b \<Longrightarrow>
   CreateRequest a Endpoint InVerb = CreateRequest b Endpoint InVerb"
  by (simp add: CreateRequest_def Let_def)

lemma Authenticate_eq:
  "Authenticate E this =
     this\<lparr>Trace := Trace this @
       [Sent ((CreateRequest this ''/auth/token'' ''POST'')
          \<lparr>Content := Serialize E [(''api_key'', FJsonValueString (ApiKey this))],
           OnProcessRequestComplete := BindOnAuthenticationResponse\<rparr>)]\<rparr>"
  by (simp add: Authenticate_def ProcessRequest_def SetStringField_def Let_def)

lemma EnsureAuthenticated_members:
  "ApiUrl (EnsureAuthenticated E this) = ApiUrl this"
  "ApiKey (EnsureAuthenticated E this) = ApiKey this"
  "AuthToken (EnsureAuthenticated E this) = AuthToken this"
  "TokenExpirationTime (EnsureAuthenticated E this) = TokenExpirationTime this"
  by (simp_all add: EnsureAuthenticated_def Authenticate_eq)

lemma EnsureAuthenticated_Trace:
  "Trace (EnsureAuthenticated E this) =
     Trace this @
       (if AuthToken this = [] \<or> Seconds E \<ge> TokenExpirationTime this - 300
        then [Sent ((CreateRequest this ''/auth/token'' ''POST'')
                \<lparr>Content := Serialize E [(''api_key'', FJsonValueString (ApiKey this))],
                 OnProcessRequestComplete := BindOnAuthenticationResponse\<rparr>)]
        else [])"
  by (simp add: EnsureAuthenticated_def Authenticate_eq)

lemma new_effects_append: "Trace after = Trace before @ es \<Longrightarrow> new_effects before after = es"
  by (simp add: new_effects_def)

lemma EnsureAuthenticated_new_effects:
  "new_effects this (EnsureAuthenticated E this) =
     (if AuthToken this = [] \<or> Seconds E \<ge> TokenExpirationTime this - 300
      then [Sent ((CreateRequest this ''/auth/token'' ''POST'')
              \<lparr>Content := Serialize E [(''api_key'', FJsonValueString (ApiKey this))],
               OnProcessRequestComplete := BindOnAuthenticationResponse\<rparr>)]
      else [])"
  by (rule new_effects_append) (simp add: EnsureAuthenticated_Trace)

text \<open>
  Claim C3. \<^verbatim>\<open>EnsureAuthenticated\<close> triggers an authentication request if and only if
  the token is empty or the clock has reached \<^verbatim>\<open>TokenExpirationTime - 300\<close>; it then
  does what \<^verbatim>\<open>Authenticate\<close> does, which is to send that one request. With a token and
  the clock strictly before that instant it changes nothing at all.
\<close>

theorem EnsureAuthenticated_triggers_iff:
  "(triggers_authenticate this (EnsureAuthenticated E this)
      \<longleftrightarrow> AuthToken this = [] \<or> Seconds E \<ge> TokenExpirationTime this - 300)
   \<and> (AuthToken this = [] \<or> Seconds E \<ge> TokenExpirationTime this - 300
        \<longrightarrow> EnsureAuthenticated E this = Authenticate E this
            \<and> new_effects this (EnsureAuthenticated E this) =
                [Sent ((CreateRequest this ''/auth/token'' ''POST'')
                   \<lparr>Content := Serialize E [(''api_key'', FJsonValueString (ApiKey this))],
                    OnProcessRequestComplete := BindOnAuthenticationResponse\<rparr>)])
   \<and> (AuthToken this \<noteq> [] \<and> Seconds E < TokenExpirationTime this - 300
        \<longrightarrow> EnsureAuthenticated E this = this)"
proof (cases "AuthToken this = [] \<or> Seconds E \<ge> TokenExpirationTime this - 300")
  case True
  then have "EnsureAuthenticated E this = Authenticate E this"
    by (simp add: EnsureAuthenticated_def)
  with True show ?thesis
    using EnsureAuthenticated_new_effects [of this E]
    by (auto simp add: triggers_authenticate_def)
next
  case False
  then have "EnsureAuthenticated E this = this"
    by (simp add: EnsureAuthenticated_def)
  with False show ?thesis
    using EnsureAuthenticated_new_effects [of this E]
    by (auto simp add: triggers_authenticate_def)
qed

text \<open>
  The theorem on a subsystem without a token, and on one whose token is good until
  second 4000 when the clock shows 1000.
\<close>

theorem EnsureAuthenticated_triggers_iff_witness:
  "triggers_authenticate fresh_sdk (EnsureAuthenticated example_engine fresh_sdk)
   \<and> EnsureAuthenticated example_engine fresh_sdk = Authenticate example_engine fresh_sdk
   \<and> new_effects fresh_sdk (EnsureAuthenticated example_engine fresh_sdk) =
       [Sent \<lparr>URL = ''http://localhost:5000/api/v1/auth/token'', Verb = ''POST'',
              Headers = [(''Content-Type'', ''application/json'')],
              Content = Serialize example_engine [(''api_key'', FJsonValueString ''key'')],
              OnProcessRequestComplete = BindOnAuthenticationResponse\<rparr>]
   \<and> \<not> triggers_authenticate example_sdk (EnsureAuthenticated example_engine example_sdk)
   \<and> AuthToken example_sdk \<noteq> []
   \<and> Seconds example_engine < TokenExpirationTime example_sdk - 300
   \<and> EnsureAuthenticated example_engine example_sdk = example_sdk"
proof -
  have due: "AuthToken fresh_sdk = []
      \<or> Seconds example_engine \<ge> TokenExpirationTime fresh_sdk - 300"
    by (simp add: fresh_sdk_def)
  have good: "AuthToken example_sdk \<noteq> []
      \<and> Seconds example_engine < TokenExpirationTime example_sdk - 300"
    by (simp add: example_sdk_def example_engine_def)
  have request:
    "(CreateRequest fresh_sdk ''/auth/token'' ''POST'')
       \<lparr>Content := Serialize example_engine [(''api_key'', FJsonValueString (ApiKey fresh_sdk))],
        OnProcessRequestComplete := BindOnAuthenticationResponse\<rparr> =
     \<lparr>URL = ''http://localhost:5000/api/v1/auth/token'', Verb = ''POST'',
      Headers = [(''Content-Type'', ''application/json'')],
      Content = Serialize example_engine [(''api_key'', FJsonValueString ''key'')],
      OnProcessRequestComplete = BindOnAuthenticationResponse\<rparr>"
    by (simp add: fresh_sdk_def CreateRequest_def HttpModule_CreateRequest_def SetHeader_def
          Let_def)
  have notdue: "\<not> (AuthToken example_sdk = []
      \<or> Seconds example_engine \<ge> TokenExpirationTime example_sdk - 300)"
    by (simp add: example_sdk_def example_engine_def)
  from due EnsureAuthenticated_triggers_iff [of fresh_sdk example_engine]
  have A: "triggers_authenticate fresh_sdk (EnsureAuthenticated example_engine fresh_sdk)
     \<and> EnsureAuthenticated example_engine fresh_sdk = Authenticate example_engine fresh_sdk
     \<and> new_effects fresh_sdk (EnsureAuthenticated example_engine fresh_sdk) =
         [Sent ((CreateRequest fresh_sdk ''/auth/token'' ''POST'')
            \<lparr>Content := Serialize example_engine [(''api_key'', FJsonValueString (ApiKey fresh_sdk))],
             OnProcessRequestComplete := BindOnAuthenticationResponse\<rparr>)]"
    by fast
  from notdue good EnsureAuthenticated_triggers_iff [of example_sdk example_engine]
  have B: "\<not> triggers_authenticate example_sdk (EnsureAuthenticated example_engine example_sdk)
     \<and> EnsureAuthenticated example_engine example_sdk = example_sdk"
    by fast
  from A B good show ?thesis
    unfolding request by fast
qed


lemma float_of_double_zero: "float_of_double 0 = Finite 0"
  by (simp add: float_of_double_def round_half_even_def Let_def)

lemma float_of_double_16777217: "float_of_double 16777217 = Finite 16777216"
  by (simp add: float_of_double_def round_half_even_def binary32_exponent_def binary32_unit_def
        Let_def eval_nat_numeral)

lemma float_of_double_42_5: "float_of_double 42.5 = Finite 42.5"
  by (simp add: float_of_double_def round_half_even_def binary32_exponent_def binary32_unit_def
        Let_def eval_nat_numeral)

lemma float_of_double_tenth: "float_of_double 0.1 = Finite (13421773 / 2 ^ 27)"
  by (simp add: float_of_double_def round_half_even_def binary32_exponent_def binary32_unit_def
        Let_def eval_nat_numeral)

lemma float_of_double_neg: "float_of_double (-16777219) = Finite (-16777220)"
  by (simp add: float_of_double_def round_half_even_def binary32_exponent_def binary32_unit_def
        Let_def eval_nat_numeral)

lemma truncation_fits:
  assumes "- (2 ^ 31) - 1 < x" and "x < 2 ^ 31"
  shows "- (2 ^ 31) \<le> (if 0 \<le> x then \<lfloor>x\<rfloor> else \<lceil>x\<rceil>)"
    and "(if 0 \<le> x then \<lfloor>x\<rfloor> else \<lceil>x\<rceil>) < 2 ^ 31"
proof -
  show "- (2 ^ 31) \<le> (if 0 \<le> x then \<lfloor>x\<rfloor> else \<lceil>x\<rceil>)"
  proof (cases "0 \<le> x")
    case True
    then have "0 \<le> \<lfloor>x\<rfloor>" by simp
    with True show ?thesis by simp
  next
    case False
    from assms(1) have "- (2 ^ 31) \<le> \<lceil>x\<rceil>"
      by (simp add: le_ceiling_iff)
    with False show ?thesis by simp
  qed
  show "(if 0 \<le> x then \<lfloor>x\<rfloor> else \<lceil>x\<rceil>) < 2 ^ 31"
  proof (cases "0 \<le> x")
    case True
    from assms(2) have "\<lfloor>x\<rfloor> < 2 ^ 31"
      by (simp add: floor_less_iff)
    with True show ?thesis by simp
  next
    case False
    then have "\<lceil>x\<rceil> \<le> 0" by (simp add: ceiling_le_iff)
    with False show ?thesis by simp
  qed
qed

lemma int32_in_range:
  assumes "- (2 ^ 31) - 1 < x" and "x < 2 ^ 31"
  shows "sint (int32_of_double E x) = (if 0 \<le> x then \<lfloor>x\<rfloor> else \<lceil>x\<rceil>)"
proof -
  have "sint (word_of_int (if 0 \<le> x then \<lfloor>x\<rfloor> else \<lceil>x\<rceil>) :: 32 word) =
      (if 0 \<le> x then \<lfloor>x\<rfloor> else \<lceil>x\<rceil>)"
    unfolding sint_sbintrunc'
    by (rule signed_take_bit_int_eq_self) (use truncation_fits [OF assms] in simp_all)
  with assms show ?thesis
    by (simp add: int32_of_double_def)
qed

lemma OnAuthenticationResponse_parsed:
  "Deserialize E (GetContentAsString r) = Some obj \<Longrightarrow>
   OnAuthenticationResponse E Request (Some r) True this =
     this\<lparr>AuthToken := GetStringField E obj ''token'',
          TokenExpirationTime :=
            Seconds E + real_of_int (sint (GetIntegerField E obj ''expires_in'')),
          Trace := Trace this @ [Logged Log ''PlayerGold SDK authenticated successfully'']\<rparr>"
  by (simp add: OnAuthenticationResponse_def IsValid_def UE_LOG_def Let_def)

lemma OnAuthenticationResponse_failed:
  "\<not> (bWasSuccessful \<and> IsValid Response) \<Longrightarrow>
   OnAuthenticationResponse E Request Response bWasSuccessful this =
     this\<lparr>Trace := Trace this @ [Logged Error ''PlayerGold SDK authentication failed'']\<rparr>"
  by (auto simp add: OnAuthenticationResponse_def UE_LOG_def)

lemma InitializeSDK_eq:
  "InitializeSDK E InApiKey InApiUrl this =
     this\<lparr>ApiKey := InApiKey, ApiUrl := InApiUrl,
          Trace := Trace this @
            [Sent \<lparr>URL = InApiUrl @ ''/auth/token'', Verb = ''POST'',
                   Headers = (''Content-Type'', ''application/json'')
                     # (if AuthToken this = [] then []
                        else [(''Authorization'', ''Bearer '' @ AuthToken this)]),
                   Content = Serialize E [(''api_key'', FJsonValueString InApiKey)],
                   OnProcessRequestComplete = BindOnAuthenticationResponse\<rparr>]\<rparr>"
  by (simp add: InitializeSDK_def Authenticate_eq CreateRequest_def HttpModule_CreateRequest_def
        SetHeader_def Let_def)

text \<open>
  Claim C2, as the code has it. A successful authentication response whose body the
  reader accepts sets \<^verbatim>\<open>AuthToken\<close> to the field \<^verbatim>\<open>token\<close> as \<^verbatim>\<open>GetStringField\<close> reads it,
  which is the field itself when it is a string, and \<^verbatim>\<open>TokenExpirationTime\<close> to the
  clock plus the field \<^verbatim>\<open>expires_in\<close> as \<^verbatim>\<open>GetIntegerField\<close> reads it. For a number
  \<open>x\<close> strictly between \<^verbatim>\<open>-2^31 - 1\<close> and \<^verbatim>\<open>2^31\<close> that is \<open>x\<close> with its fraction cut
  off towards zero, hence \<open>Seconds E + expires_in\<close> for a whole number of 32 bits. And
  \<^verbatim>\<open>InitializeSDK\<close> stores the key and the URL and at once sends one authentication
  request, a POST to \<^verbatim>\<open>/auth/token\<close> under the new URL with the new key as body.
\<close>

theorem authenticate_success_sets_session:
  assumes "Deserialize E (GetContentAsString r) = Some obj"
  shows "AuthToken (OnAuthenticationResponse E Request (Some r) True this) =
           GetStringField E obj ''token''
    \<and> TokenExpirationTime (OnAuthenticationResponse E Request (Some r) True this) =
           Seconds E + real_of_int (sint (GetIntegerField E obj ''expires_in''))
    \<and> (map_of obj ''token'' = Some (FJsonValueString token)
          \<longrightarrow> AuthToken (OnAuthenticationResponse E Request (Some r) True this) = token)
    \<and> (map_of obj ''expires_in'' = Some (FJsonValueNumber x)
          \<and> - (2 ^ 31) - 1 < x \<and> x < 2 ^ 31
          \<longrightarrow> TokenExpirationTime (OnAuthenticationResponse E Request (Some r) True this) =
                Seconds E + real_of_int (if 0 \<le> x then \<lfloor>x\<rfloor> else \<lceil>x\<rceil>))
    \<and> (map_of obj ''expires_in'' = Some (FJsonValueNumber (real_of_int expires_in))
          \<and> - (2 ^ 31) \<le> expires_in \<and> expires_in < 2 ^ 31
          \<longrightarrow> TokenExpirationTime (OnAuthenticationResponse E Request (Some r) True this) =
                Seconds E + real_of_int expires_in)
    \<and> ApiKey (InitializeSDK E InApiKey InApiUrl this) = InApiKey
    \<and> ApiUrl (InitializeSDK E InApiKey InApiUrl this) = InApiUrl
    \<and> new_effects this (InitializeSDK E InApiKey InApiUrl this) =
         [Sent \<lparr>URL = InApiUrl @ ''/auth/token'', Verb = ''POST'',
                Headers = (''Content-Type'', ''application/json'')
                  # (if AuthToken this = [] then []
                     else [(''Authorization'', ''Bearer '' @ AuthToken this)]),
                Content = Serialize E [(''api_key'', FJsonValueString InApiKey)],
                OnProcessRequestComplete = BindOnAuthenticationResponse\<rparr>]
    \<and> triggers_authenticate this (InitializeSDK E InApiKey InApiUrl this)"
proof -
  note parsed = OnAuthenticationResponse_parsed [OF assms, of Request this]
  have token: "map_of obj ''token'' = Some (FJsonValueString token)
      \<longrightarrow> GetStringField E obj ''token'' = token"
    by (simp add: GetStringField_def GetField_def)
  have cut: "map_of obj ''expires_in'' = Some (FJsonValueNumber x)
      \<and> - (2 ^ 31) - 1 < x \<and> x < 2 ^ 31
      \<longrightarrow> sint (GetIntegerField E obj ''expires_in'') =
            (if 0 \<le> x then \<lfloor>x\<rfloor> else \<lceil>x\<rceil>)"
    by (simp add: GetIntegerField_def GetField_def int32_in_range)
  have whole: "map_of obj ''expires_in'' = Some (FJsonValueNumber (real_of_int expires_in))
      \<and> - (2 ^ 31) \<le> expires_in \<and> expires_in < 2 ^ 31
      \<longrightarrow> sint (GetIntegerField E obj ''expires_in'') = expires_in"
  proof (intro impI, elim conjE)
    assume field: "map_of obj ''expires_in'' = Some (FJsonValueNumber (real_of_int expires_in))"
      and lo: "- (2 ^ 31) \<le> expires_in" and hi: "expires_in < 2 ^ 31"
    from lo have "real_of_int (- (2 ^ 31)) \<le> real_of_int expires_in"
      by (simp only: of_int_le_iff)
    then have "- (2 ^ 31) - 1 < real_of_int expires_in"
      by simp
    moreover from hi have "real_of_int expires_in < real_of_int (2 ^ 31)"
      by (simp only: of_int_less_iff)
    then have "real_of_int expires_in < 2 ^ 31"
      by simp
    ultimately have "sint (int32_of_double E (real_of_int expires_in)) =
        (if 0 \<le> real_of_int expires_in then \<lfloor>real_of_int expires_in\<rfloor>
         else \<lceil>real_of_int expires_in\<rceil>)"
      by (rule int32_in_range)
    with field show "sint (GetIntegerField E obj ''expires_in'') = expires_in"
      by (simp add: GetIntegerField_def GetField_def)
  qed
  have sent: "new_effects this (InitializeSDK E InApiKey InApiUrl this) =
         [Sent \<lparr>URL = InApiUrl @ ''/auth/token'', Verb = ''POST'',
                Headers = (''Content-Type'', ''application/json'')
                  # (if AuthToken this = [] then []
                     else [(''Authorization'', ''Bearer '' @ AuthToken this)]),
                Content = Serialize E [(''api_key'', FJsonValueString InApiKey)],
                OnProcessRequestComplete = BindOnAuthenticationResponse\<rparr>]"
    by (rule new_effects_append) (simp add: InitializeSDK_eq)
  have trig: "triggers_authenticate this (InitializeSDK E InApiKey InApiUrl this)"
    by (simp add: triggers_authenticate_def sent)
  have a: "AuthToken (OnAuthenticationResponse E Request (Some r) True this) =
           GetStringField E obj ''token''"
    and b: "TokenExpirationTime (OnAuthenticationResponse E Request (Some r) True this) =
           Seconds E + real_of_int (sint (GetIntegerField E obj ''expires_in''))"
    by (simp_all add: parsed)
  have k: "ApiKey (InitializeSDK E InApiKey InApiUrl this) = InApiKey"
    and u: "ApiUrl (InitializeSDK E InApiKey InApiUrl this) = InApiUrl"
    by (simp_all add: InitializeSDK_eq)
  from token cut whole show ?thesis
    unfolding a b by (intro conjI) (simp_all add: sent trig k u)
qed

lemma read_auth_body:
  \<open>read_flat_object ''{"token":"abc", "expires_in": 3600}'' =
     Some [(''token'', FJsonValueString ''abc''), (''expires_in'', FJsonValueNumber 3600)]\<close>
  by (simp add: read_flat_object_def feed_outside_def is_space_def number_of_def
        unsigned_of_def is_digit_def digits_value_def)

lemma read_fractional_auth_body:
  \<open>read_flat_object ''{"token":"abc", "expires_in": 3600.5}'' =
     Some [(''token'', FJsonValueString ''abc''), (''expires_in'', FJsonValueNumber 3600.5)]\<close>
  by (simp add: read_flat_object_def feed_outside_def is_space_def number_of_def
        unsigned_of_def is_digit_def digits_value_def)

text \<open>
  The theorem on the response \<^verbatim>\<open>{"token":"abc", "expires_in": 3600}\<close> at second 1000.
\<close>

theorem authenticate_success_sets_session_witness:
  \<open>Deserialize example_engine
      (GetContentAsString \<lparr>GetResponseCode = 200,
         GetContentAsString = ''{"token":"abc", "expires_in": 3600}''\<rparr>) =
     Some [(''token'', FJsonValueString ''abc''), (''expires_in'', FJsonValueNumber 3600)]
   \<and> AuthToken (OnAuthenticationResponse example_engine HttpModule_CreateRequest
        (Some \<lparr>GetResponseCode = 200,
           GetContentAsString = ''{"token":"abc", "expires_in": 3600}''\<rparr>) True fresh_sdk) = ''abc''
   \<and> TokenExpirationTime (OnAuthenticationResponse example_engine HttpModule_CreateRequest
        (Some \<lparr>GetResponseCode = 200,
           GetContentAsString = ''{"token":"abc", "expires_in": 3600}''\<rparr>) True fresh_sdk) = 4600
   \<and> TokenExpirationTime (OnAuthenticationResponse example_engine HttpModule_CreateRequest
        (Some \<lparr>GetResponseCode = 200,
           GetContentAsString = ''{"token":"abc", "expires_in": 3600}''\<rparr>) True fresh_sdk) =
       Seconds example_engine + real_of_int (if 0 \<le> (3600::real) then \<lfloor>3600::real\<rfloor> else \<lceil>3600::real\<rceil>)
   \<and> ApiKey (InitializeSDK example_engine ''key'' ''http://localhost:5000/api/v1'' fresh_sdk) = ''key''
   \<and> triggers_authenticate fresh_sdk
        (InitializeSDK example_engine ''key'' ''http://localhost:5000/api/v1'' fresh_sdk)\<close>
proof -
  have body: \<open>Deserialize example_engine
      (GetContentAsString \<lparr>GetResponseCode = 200,
         GetContentAsString = ''{"token":"abc", "expires_in": 3600}''\<rparr>) =
     Some [(''token'', FJsonValueString ''abc''), (''expires_in'', FJsonValueNumber 3600)]\<close>
    by (simp only: example_engine_def engine.simps IHttpResponse.simps read_auth_body)
  have field1:
    "map_of [(''token'', FJsonValueString ''abc''), (''expires_in'', FJsonValueNumber 3600)]
       ''token'' = Some (FJsonValueString ''abc'')"
    by simp
  have field2:
    "map_of [(''token'', FJsonValueString ''abc''), (''expires_in'', FJsonValueNumber 3600)]
       ''expires_in'' = Some (FJsonValueNumber (real_of_int 3600))
     \<and> - (2 ^ 31) \<le> (3600::int) \<and> (3600::int) < 2 ^ 31"
    by simp
  have field3:
    "map_of [(''token'', FJsonValueString ''abc''), (''expires_in'', FJsonValueNumber 3600)]
       ''expires_in'' = Some (FJsonValueNumber 3600)
     \<and> - (2 ^ 31) - 1 < (3600::real) \<and> (3600::real) < 2 ^ 31"
    by simp
  have now: "Seconds example_engine + real_of_int 3600 = 4600"
    by (simp add: example_engine_def)
  note T = authenticate_success_sets_session [OF body, where token = "''abc''"
      and expires_in = 3600 and x = 3600 and Request = HttpModule_CreateRequest
      and this = fresh_sdk
      and InApiKey = "''key''" and InApiUrl = "''http://localhost:5000/api/v1''"]
  note tok = T [THEN conjunct2, THEN conjunct2, THEN conjunct1, THEN mp, OF field1]
  note cut = T [THEN conjunct2, THEN conjunct2, THEN conjunct2, THEN conjunct1, THEN mp,
      OF field3]
  note exp0 = T [THEN conjunct2, THEN conjunct2, THEN conjunct2, THEN conjunct2,
      THEN conjunct1, THEN mp, OF field2]
  note key = T [THEN conjunct2, THEN conjunct2, THEN conjunct2, THEN conjunct2,
      THEN conjunct2, THEN conjunct1]
  note trig = T [THEN conjunct2, THEN conjunct2, THEN conjunct2, THEN conjunct2,
      THEN conjunct2, THEN conjunct2, THEN conjunct2, THEN conjunct2]
  from exp0 now
  have exp: \<open>TokenExpirationTime (OnAuthenticationResponse example_engine HttpModule_CreateRequest
        (Some \<lparr>GetResponseCode = 200,
           GetContentAsString = ''{"token":"abc", "expires_in": 3600}''\<rparr>) True fresh_sdk) = 4600\<close>
    by (simp only:)
  show ?thesis
    by (intro conjI) (rule body tok exp cut key trig)+
qed

text \<open>
  Claim C2 as stated fails. On the response \<^verbatim>\<open>{"token":"abc", "expires_in": 3600.5}\<close> at
  second 1000 the expiry becomes 4600, which is not the clock plus \<^verbatim>\<open>expires_in\<close>.
\<close>

theorem fractional_expiry_counterexample:
  \<open>Deserialize example_engine ''{"token":"abc", "expires_in": 3600.5}'' =
     Some [(''token'', FJsonValueString ''abc''), (''expires_in'', FJsonValueNumber 3600.5)]
   \<and> Seconds example_engine = 1000
   \<and> TokenExpirationTime (OnAuthenticationResponse example_engine HttpModule_CreateRequest
        (Some \<lparr>GetResponseCode = 200,
           GetContentAsString = ''{"token":"abc", "expires_in": 3600.5}''\<rparr>) True fresh_sdk) =
       4600
   \<and> TokenExpirationTime (OnAuthenticationResponse example_engine HttpModule_CreateRequest
        (Some \<lparr>GetResponseCode = 200,
           GetContentAsString = ''{"token":"abc", "expires_in": 3600.5}''\<rparr>) True fresh_sdk) \<noteq>
       Seconds example_engine + 3600.5\<close>
proof -
  have body: \<open>Deserialize example_engine ''{"token":"abc", "expires_in": 3600.5}'' =
     Some [(''token'', FJsonValueString ''abc''), (''expires_in'', FJsonValueNumber 3600.5)]\<close>
    by (simp only: example_engine_def engine.simps read_fractional_auth_body)
  have clock: "Seconds example_engine = 1000"
    by (simp add: example_engine_def)
  have "sint (int32_of_double example_engine (7201 / 2)) = 3600"
    by (simp add: int32_of_double_def)
  then have "real_of_int (sint (int32_of_double example_engine (7201 / 2))) = real_of_int 3600"
    by (simp only:)
  then have cast: "(signed (int32_of_double example_engine (7201 / 2)) :: real) = 3600"
    by simp
  have run: \<open>TokenExpirationTime (OnAuthenticationResponse example_engine
        HttpModule_CreateRequest
        (Some \<lparr>GetResponseCode = 200,
           GetContentAsString = ''{"token":"abc", "expires_in": 3600.5}''\<rparr>) True fresh_sdk) =
       4600\<close>
    by (simp add: OnAuthenticationResponse_def IsValid_def body UE_LOG_def
          GetIntegerField_def GetField_def cast clock)
  show ?thesis
    unfolding run using body clock by simp
qed

lemma CreateRequest_after_EnsureAuthenticated:
  "CreateRequest (EnsureAuthenticated E this) Endpoint InVerb = CreateRequest this Endpoint InVerb"
  by (rule CreateRequest_cong) (simp_all add: EnsureAuthenticated_members)

lemma GetBalance_eq:
  "GetBalance E Address OnSuccess OnError this =
     (EnsureAuthenticated E this)\<lparr>Trace := Trace (EnsureAuthenticated E this) @
        [Sent ((CreateRequest this (''/balance/'' @ Address) ''GET'')
           \<lparr>OnProcessRequestComplete := BindOnBalanceResponse OnSuccess OnError\<rparr>)]\<rparr>"
  by (simp add: GetBalance_def ProcessRequest_def Let_def CreateRequest_after_EnsureAuthenticated)

lemma GetTransaction_eq:
  "GetTransaction E TransactionHash this =
     (EnsureAuthenticated E this)\<lparr>Trace := Trace (EnsureAuthenticated E this) @
        [Sent (CreateRequest this (''/transaction/'' @ TransactionHash) ''GET'')]\<rparr>"
  by (simp add: GetTransaction_def ProcessRequest_def Let_def
        CreateRequest_after_EnsureAuthenticated)

lemma CreateTransaction_eq:
  "CreateTransaction E FromAddress ToAddress Amount PrivateKey OnSuccess OnError this =
     (EnsureAuthenticated E this)\<lparr>Trace := Trace (EnsureAuthenticated E this) @
        [Sent ((CreateRequest this ''/transaction'' ''POST'')
           \<lparr>Content := Serialize E
              [(''from_address'', FJsonValueString FromAddress),
               (''to_address'', FJsonValueString ToAddress),
               (''amount'', FJsonValueNumber Amount),
               (''private_key'', FJsonValueString PrivateKey),
               (''fee'', FJsonValueNumber 0.01)],
            OnProcessRequestComplete := BindOnTransactionResponse OnSuccess OnError\<rparr>)]\<rparr>"
  by (simp add: CreateTransaction_def ProcessRequest_def Let_def SetStringField_def
        SetNumberField_def CreateRequest_after_EnsureAuthenticated)

lemma GetNetworkStatus_eq:
  "GetNetworkStatus this =
     this\<lparr>Trace := Trace this @ [Sent (CreateRequest this ''/network/status'' ''GET'')]\<rparr>"
  by (simp add: GetNetworkStatus_def ProcessRequest_def Let_def)

lemma CreateRequest_eq:
  "CreateRequest this Endpoint InVerb =
     \<lparr>URL = ApiUrl this @ Endpoint, Verb = InVerb,
      Headers = (''Content-Type'', ''application/json'')
        # (if AuthToken this = [] then []
           else [(''Authorization'', ''Bearer '' @ AuthToken this)]),
      Content = [], OnProcessRequestComplete = NotBound\<rparr>"
  by (simp add: CreateRequest_def HttpModule_CreateRequest_def SetHeader_def Let_def)

text \<open>
  Claim C5. After the call to \<^verbatim>\<open>EnsureAuthenticated\<close>, \<^verbatim>\<open>CreateTransaction\<close> sends exactly
  one request: a POST to \<^verbatim>\<open>/transaction\<close> whose body is the serialised object with the
  five fields \<^verbatim>\<open>from_address\<close>, \<^verbatim>\<open>to_address\<close>, \<^verbatim>\<open>amount\<close>, \<^verbatim>\<open>private_key\<close> and
  \<^verbatim>\<open>fee\<close>, the fee being 0.01 whatever the arguments are.
\<close>

theorem CreateTransaction_body:
  "new_effects (EnsureAuthenticated E this)
     (CreateTransaction E FromAddress ToAddress Amount PrivateKey OnSuccess OnError this) =
     [Sent \<lparr>URL = ApiUrl this @ ''/transaction'', Verb = ''POST'',
            Headers = (''Content-Type'', ''application/json'')
              # (if AuthToken this = [] then []
                 else [(''Authorization'', ''Bearer '' @ AuthToken this)]),
            Content = Serialize E
              [(''from_address'', FJsonValueString FromAddress),
               (''to_address'', FJsonValueString ToAddress),
               (''amount'', FJsonValueNumber Amount),
               (''private_key'', FJsonValueString PrivateKey),
               (''fee'', FJsonValueNumber 0.01)],
            OnProcessRequestComplete = BindOnTransactionResponse OnSuccess OnError\<rparr>]"
  by (rule new_effects_append) (simp add: CreateTransaction_eq CreateRequest_eq)

text \<open>
  Claim C7. A request made by \<^verbatim>\<open>CreateRequest\<close> has the base URL followed by the
  endpoint as its URL, the header \<^verbatim>\<open>Content-Type: application/json\<close>, and the header
  \<^verbatim>\<open>Authorization: Bearer\<close> with the token if and only if the token is not empty.
  Every request the SDK sends is made by \<^verbatim>\<open>CreateRequest\<close> on the operation's path,
  with only the body and the completion delegate set afterwards, and it is sent
  whether or not there is a token; \<^verbatim>\<open>InitializeSDK\<close> sends what \<^verbatim>\<open>Authenticate\<close> sends
  under the new configuration.
\<close>

theorem request_construction_contract:
  "URL (CreateRequest this Endpoint InVerb) = ApiUrl this @ Endpoint
   \<and> Verb (CreateRequest this Endpoint InVerb) = InVerb
   \<and> map_of (Headers (CreateRequest this Endpoint InVerb)) ''Content-Type'' =
        Some ''application/json''
   \<and> map_of (Headers (CreateRequest this Endpoint InVerb)) ''Authorization'' =
        (if AuthToken this = [] then None else Some (''Bearer '' @ AuthToken this))
   \<and> new_effects this (Authenticate E this) =
        [Sent ((CreateRequest this ''/auth/token'' ''POST'')
           \<lparr>Content := Serialize E [(''api_key'', FJsonValueString (ApiKey this))],
            OnProcessRequestComplete := BindOnAuthenticationResponse\<rparr>)]
   \<and> new_effects (EnsureAuthenticated E this) (GetBalance E Address OnBalance OnError this) =
        [Sent ((CreateRequest this (''/balance/'' @ Address) ''GET'')
           \<lparr>OnProcessRequestComplete := BindOnBalanceResponse OnBalance OnError\<rparr>)]
   \<and> new_effects (EnsureAuthenticated E this)
        (CreateTransaction E FromAddress ToAddress Amount PrivateKey OnCreated OnError this) =
        [Sent ((CreateRequest this ''/transaction'' ''POST'')
           \<lparr>Content := Serialize E
              [(''from_address'', FJsonValueString FromAddress),
               (''to_address'', FJsonValueString ToAddress),
               (''amount'', FJsonValueNumber Amount),
               (''private_key'', FJsonValueString PrivateKey),
               (''fee'', FJsonValueNumber 0.01)],
            OnProcessRequestComplete := BindOnTransactionResponse OnCreated OnError\<rparr>)]
   \<and> new_effects (EnsureAuthenticated E this) (GetTransaction E TransactionHash this) =
        [Sent (CreateRequest this (''/transaction/'' @ TransactionHash) ''GET'')]
   \<and> new_effects this (GetNetworkStatus this) =
        [Sent (CreateRequest this ''/network/status'' ''GET'')]
   \<and> new_effects this (EnsureAuthenticated E this) =
        (if AuthToken this = [] \<or> Seconds E \<ge> TokenExpirationTime this - 300
         then new_effects this (Authenticate E this) else [])
   \<and> InitializeSDK E InApiKey InApiUrl this =
        Authenticate E (this\<lparr>ApiKey := InApiKey, ApiUrl := InApiUrl\<rparr>)"
proof -
  have auth: "new_effects this (Authenticate E this) =
        [Sent ((CreateRequest this ''/auth/token'' ''POST'')
           \<lparr>Content := Serialize E [(''api_key'', FJsonValueString (ApiKey this))],
            OnProcessRequestComplete := BindOnAuthenticationResponse\<rparr>)]"
    by (rule new_effects_append) (simp add: Authenticate_eq)
  have bal: "new_effects (EnsureAuthenticated E this) (GetBalance E Address OnBalance OnError this) =
        [Sent ((CreateRequest this (''/balance/'' @ Address) ''GET'')
           \<lparr>OnProcessRequestComplete := BindOnBalanceResponse OnBalance OnError\<rparr>)]"
    by (rule new_effects_append) (simp add: GetBalance_eq)
  have tx: "new_effects (EnsureAuthenticated E this)
        (CreateTransaction E FromAddress ToAddress Amount PrivateKey OnCreated OnError this) =
        [Sent ((CreateRequest this ''/transaction'' ''POST'')
           \<lparr>Content := Serialize E
              [(''from_address'', FJsonValueString FromAddress),
               (''to_address'', FJsonValueString ToAddress),
               (''amount'', FJsonValueNumber Amount),
               (''private_key'', FJsonValueString PrivateKey),
               (''fee'', FJsonValueNumber 0.01)],
            OnProcessRequestComplete := BindOnTransactionResponse OnCreated OnError\<rparr>)]"
    by (rule new_effects_append) (simp add: CreateTransaction_eq)
  have get: "new_effects (EnsureAuthenticated E this) (GetTransaction E TransactionHash this) =
        [Sent (CreateRequest this (''/transaction/'' @ TransactionHash) ''GET'')]"
    by (rule new_effects_append) (simp add: GetTransaction_eq)
  have net: "new_effects this (GetNetworkStatus this) =
        [Sent (CreateRequest this ''/network/status'' ''GET'')]"
    by (rule new_effects_append) (simp add: GetNetworkStatus_eq)
  have ens: "new_effects this (EnsureAuthenticated E this) =
        (if AuthToken this = [] \<or> Seconds E \<ge> TokenExpirationTime this - 300
         then new_effects this (Authenticate E this) else [])"
    by (simp only: EnsureAuthenticated_new_effects auth)
  have hdr: "map_of (Headers (CreateRequest this Endpoint InVerb)) ''Content-Type'' =
        Some ''application/json''
     \<and> map_of (Headers (CreateRequest this Endpoint InVerb)) ''Authorization'' =
        (if AuthToken this = [] then None else Some (''Bearer '' @ AuthToken this))"
    by (simp add: CreateRequest_Headers)
  have init: "InitializeSDK E InApiKey InApiUrl this =
        Authenticate E (this\<lparr>ApiKey := InApiKey, ApiUrl := InApiUrl\<rparr>)"
    by (simp add: InitializeSDK_def)
  from hdr auth bal tx get net ens init show ?thesis
    by (simp only: CreateRequest_URL CreateRequest_Verb simp_thms)
qed

text \<open>
  Claim C10. The request of \<^verbatim>\<open>GetBalance\<close> has the URL made of the base URL,
  \<^verbatim>\<open>/balance/\<close> and the address, character for character; likewise the request of
  \<^verbatim>\<open>GetTransaction\<close> with \<^verbatim>\<open>/transaction/\<close> and the hash. Nothing is escaped or checked.
\<close>

theorem request_url_is_plain_concatenation:
  "(\<exists>Request.
      GetBalance E Address OnSuccess OnError this =
        ProcessRequest Request (EnsureAuthenticated E this)
      \<and> URL Request = ApiUrl this @ ''/balance/'' @ Address)
   \<and> (\<exists>Request.
      GetTransaction E TransactionHash this =
        ProcessRequest Request (EnsureAuthenticated E this)
      \<and> URL Request = ApiUrl this @ ''/transaction/'' @ TransactionHash)"
proof (intro conjI exI)
  show "GetBalance E Address OnSuccess OnError this =
      ProcessRequest ((CreateRequest this (''/balance/'' @ Address) ''GET'')
           \<lparr>OnProcessRequestComplete := BindOnBalanceResponse OnSuccess OnError\<rparr>)
        (EnsureAuthenticated E this)"
    by (simp add: GetBalance_eq ProcessRequest_def)
  show "URL ((CreateRequest this (''/balance/'' @ Address) ''GET'')
           \<lparr>OnProcessRequestComplete := BindOnBalanceResponse OnSuccess OnError\<rparr>) =
        ApiUrl this @ ''/balance/'' @ Address"
    by (simp add: CreateRequest_URL)
  show "GetTransaction E TransactionHash this =
      ProcessRequest (CreateRequest this (''/transaction/'' @ TransactionHash) ''GET'')
        (EnsureAuthenticated E this)"
    by (simp add: GetTransaction_eq ProcessRequest_def)
  show "URL (CreateRequest this (''/transaction/'' @ TransactionHash) ''GET'') =
        ApiUrl this @ ''/transaction/'' @ TransactionHash"
    by (simp add: CreateRequest_URL)
qed

lemma OnBalanceResponse_failed:
  "\<not> (bWasSuccessful \<and> IsValid Response) \<Longrightarrow>
   OnBalanceResponse E Request Response bWasSuccessful OnSuccess OnError this =
     ExecuteIfBound_Error OnError
       (case Response of Some r \<Rightarrow> GetContentAsString r | None \<Rightarrow> ''Request failed'') this"
  by (cases Response) (auto simp add: OnBalanceResponse_def IsValid_def Let_def)

lemma OnTransactionResponse_failed:
  "\<not> (bWasSuccessful \<and> IsValid Response) \<Longrightarrow>
   OnTransactionResponse E Request Response bWasSuccessful OnSuccess OnError this =
     ExecuteIfBound_Error OnError
       (case Response of Some r \<Rightarrow> GetContentAsString r | None \<Rightarrow> ''Request failed'') this"
  by (cases Response) (auto simp add: OnTransactionResponse_def IsValid_def Let_def)

lemma OnBalanceResponse_completed:
  "OnBalanceResponse E Request (Some r) True OnSuccess OnError this =
     (case Deserialize E (GetContentAsString r) of
        Some obj \<Rightarrow>
          ExecuteIfBound_Balance OnSuccess (float_of_double (GetNumberField E obj ''balance''))
            this
      | None \<Rightarrow> ExecuteIfBound_Error OnError ''Failed to parse balance response'' this)"
  by (simp add: OnBalanceResponse_def IsValid_def Let_def split: option.splits)

lemma OnTransactionResponse_completed:
  "OnTransactionResponse E Request (Some r) True OnSuccess OnError this =
     (case Deserialize E (GetContentAsString r) of
        Some obj \<Rightarrow>
          ExecuteIfBound_Transaction OnSuccess (GetStringField E obj ''transaction_hash'') this
      | None \<Rightarrow> ExecuteIfBound_Error OnError ''Failed to parse transaction response'' this)"
  by (simp add: OnTransactionResponse_def IsValid_def Let_def split: option.splits)

lemma new_effects_Error:
  "new_effects this (ExecuteIfBound_Error D Msg this) =
     (case D of Unbound \<Rightarrow> [] | Bound g \<Rightarrow> [ErrorReported g Msg])"
  by (cases D) (simp_all add: new_effects_def ExecuteIfBound_Error_def)

lemma new_effects_Balance:
  "new_effects this (ExecuteIfBound_Balance D Balance this) =
     (case D of Unbound \<Rightarrow> [] | Bound f \<Rightarrow> [BalanceReceived f Balance])"
  by (cases D) (simp_all add: new_effects_def ExecuteIfBound_Balance_def)

lemma new_effects_Transaction:
  "new_effects this (ExecuteIfBound_Transaction D TransactionHash this) =
     (case D of Unbound \<Rightarrow> [] | Bound f \<Rightarrow> [TransactionCreated f TransactionHash])"
  by (cases D) (simp_all add: new_effects_def ExecuteIfBound_Transaction_def)

text \<open>
  Claim C1, as the code has it. When the request of \<^verbatim>\<open>GetBalance\<close> completes with the
  success flag and a valid response, \<^verbatim>\<open>OnBalanceResponse\<close> reports the fixed message
  ``Failed to parse balance response'' to the error delegate exactly when the engine's
  reader rejects the body. When the reader accepts the body, the success delegate
  receives \<^verbatim>\<open>GetNumberField("balance")\<close> of the object, narrowed to \<^verbatim>\<open>float\<close>, and the
  error delegate receives nothing. For an object without a field \<^verbatim>\<open>balance\<close> that value
  is 0, and for a number field it is the field narrowed to \<^verbatim>\<open>float\<close>.
\<close>

theorem balance_response_decoding:
  "(Deserialize E (GetContentAsString r) = None \<longrightarrow>
      new_effects this
        (OnBalanceResponse E Request (Some r) True OnSuccess (Bound g) this) =
        [ErrorReported g ''Failed to parse balance response''])
   \<and> (Deserialize E (GetContentAsString r) = Some obj \<longrightarrow>
      new_effects this
        (OnBalanceResponse E Request (Some r) True (Bound f) OnError this) =
        [BalanceReceived f (float_of_double (GetNumberField E obj ''balance''))])
   \<and> (map_of obj ''balance'' = None \<longrightarrow>
      float_of_double (GetNumberField E obj ''balance'') = Finite 0)
   \<and> (map_of obj ''balance'' = Some (FJsonValueNumber x) \<longrightarrow>
      float_of_double (GetNumberField E obj ''balance'') = float_of_double x)"
  by (simp add: OnBalanceResponse_completed new_effects_Error new_effects_Balance
        GetNumberField_def GetField_def float_of_double_zero)

lemma read_unexpected_shape:
  \<open>read_flat_object ''{"unexpected":"shape"}'' =
     Some [(''unexpected'', FJsonValueString ''shape'')]\<close>
  by (simp add: read_flat_object_def feed_outside_def is_space_def)

lemma read_large_balance:
  \<open>read_flat_object ''{"balance": 16777217}'' =
     Some [(''balance'', FJsonValueNumber 16777217)]\<close>
  by (simp add: read_flat_object_def feed_outside_def is_space_def number_of_def
        unsigned_of_def is_digit_def digits_value_def)

lemma read_not_json: "read_flat_object ''not json'' = None"
  by (simp add: read_flat_object_def feed_outside_def is_space_def number_of_def
        unsigned_of_def is_digit_def)

text \<open>
  The theorem at three bodies: one that the reader rejects, the body of the claim,
  which is an object without a field \<^verbatim>\<open>balance\<close>, and a balance of 16777217, which is
  not a \<^verbatim>\<open>float\<close> and arrives as 16777216.
\<close>

theorem balance_response_decoding_witness:
  \<open>Deserialize example_engine
      (GetContentAsString \<lparr>GetResponseCode = 200, GetContentAsString = ''not json''\<rparr>) = None
   \<and> new_effects example_sdk
        (OnBalanceResponse example_engine HttpModule_CreateRequest
          (Some \<lparr>GetResponseCode = 200, GetContentAsString = ''not json''\<rparr>) True
          (Bound ''ShowBalance'') (Bound ''ShowError'') example_sdk) =
        [ErrorReported ''ShowError'' ''Failed to parse balance response'']
   \<and> Deserialize example_engine
      (GetContentAsString
        \<lparr>GetResponseCode = 200, GetContentAsString = ''{"unexpected":"shape"}''\<rparr>) =
      Some [(''unexpected'', FJsonValueString ''shape'')]
   \<and> map_of [(''unexpected'', FJsonValueString ''shape'')] ''balance'' = None
   \<and> new_effects example_sdk
        (OnBalanceResponse example_engine HttpModule_CreateRequest
          (Some \<lparr>GetResponseCode = 200, GetContentAsString = ''{"unexpected":"shape"}''\<rparr>)
          True (Bound ''ShowBalance'') (Bound ''ShowError'') example_sdk) =
        [BalanceReceived ''ShowBalance''
           (float_of_double
             (GetNumberField example_engine [(''unexpected'', FJsonValueString ''shape'')]
                ''balance''))]
   \<and> float_of_double
        (GetNumberField example_engine [(''unexpected'', FJsonValueString ''shape'')]
           ''balance'') = Finite 0
   \<and> Deserialize example_engine
      (GetContentAsString
        \<lparr>GetResponseCode = 200, GetContentAsString = ''{"balance": 16777217}''\<rparr>) =
      Some [(''balance'', FJsonValueNumber 16777217)]
   \<and> new_effects example_sdk
        (OnBalanceResponse example_engine HttpModule_CreateRequest
          (Some \<lparr>GetResponseCode = 200, GetContentAsString = ''{"balance": 16777217}''\<rparr>)
          True (Bound ''ShowBalance'') (Bound ''ShowError'') example_sdk) =
        [BalanceReceived ''ShowBalance'' (Finite 16777216)]\<close>
proof -
  have bad: \<open>Deserialize example_engine
      (GetContentAsString \<lparr>GetResponseCode = 200, GetContentAsString = ''not json''\<rparr>) = None\<close>
    by (simp only: example_engine_def engine.simps IHttpResponse.simps read_not_json)
  have good: \<open>Deserialize example_engine
      (GetContentAsString
        \<lparr>GetResponseCode = 200, GetContentAsString = ''{"unexpected":"shape"}''\<rparr>) =
      Some [(''unexpected'', FJsonValueString ''shape'')]\<close>
    by (simp only: example_engine_def engine.simps IHttpResponse.simps read_unexpected_shape)
  have absent: "map_of [(''unexpected'', FJsonValueString ''shape'')] ''balance'' = None"
    by simp
  note T1 = balance_response_decoding [where E = example_engine
      and r = "\<lparr>GetResponseCode = 200, GetContentAsString = ''not json''\<rparr>"
      and Request = HttpModule_CreateRequest and this = example_sdk
      and OnSuccess = "Bound ''ShowBalance''" and g = "''ShowError''"]
  note T2 = balance_response_decoding [where E = example_engine
      and r = \<open>\<lparr>GetResponseCode = 200, GetContentAsString = ''{"unexpected":"shape"}''\<rparr>\<close>
      and obj = "[(''unexpected'', FJsonValueString ''shape'')]"
      and Request = HttpModule_CreateRequest and this = example_sdk
      and OnError = "Bound ''ShowError''" and f = "''ShowBalance''"]
  note a = T1 [THEN conjunct1, THEN mp, OF bad]
  note b = T2 [THEN conjunct2, THEN conjunct1, THEN mp, OF good]
  note c = T2 [THEN conjunct2, THEN conjunct2, THEN conjunct1, THEN mp, OF absent]
  have big: \<open>Deserialize example_engine
      (GetContentAsString
        \<lparr>GetResponseCode = 200, GetContentAsString = ''{"balance": 16777217}''\<rparr>) =
      Some [(''balance'', FJsonValueNumber 16777217)]\<close>
    by (simp only: example_engine_def engine.simps IHttpResponse.simps read_large_balance)
  have present: "map_of [(''balance'', FJsonValueNumber 16777217)] ''balance'' =
      Some (FJsonValueNumber 16777217)"
    by simp
  note T3 = balance_response_decoding [where E = example_engine
      and r = \<open>\<lparr>GetResponseCode = 200, GetContentAsString = ''{"balance": 16777217}''\<rparr>\<close>
      and obj = "[(''balance'', FJsonValueNumber 16777217)]" and x = 16777217
      and Request = HttpModule_CreateRequest and this = example_sdk
      and OnError = "Bound ''ShowError''" and f = "''ShowBalance''"]
  note d0 = T3 [THEN conjunct2, THEN conjunct1, THEN mp, OF big]
  note e0 = T3 [THEN conjunct2, THEN conjunct2, THEN conjunct2, THEN mp, OF present]
  from d0 have d: \<open>new_effects example_sdk
        (OnBalanceResponse example_engine HttpModule_CreateRequest
          (Some \<lparr>GetResponseCode = 200, GetContentAsString = ''{"balance": 16777217}''\<rparr>)
          True (Bound ''ShowBalance'') (Bound ''ShowError'') example_sdk) =
        [BalanceReceived ''ShowBalance'' (Finite 16777216)]\<close>
    by (simp only: e0 float_of_double_16777217)
  show ?thesis
    by (intro conjI) (rule bad a good absent b c big d)+
qed

text \<open>
  Claim C1 as stated fails. \<^verbatim>\<open>GetBalance\<close> with both delegates bound sends its request;
  the request completes with the flag true and the body \<^verbatim>\<open>{"unexpected":"shape"}\<close>,
  which the reader accepts. The success delegate receives the balance 0 and the error
  delegate receives nothing.
\<close>

theorem unexpected_shape_counterexample:
  \<open>new_effects example_sdk
     (GetBalance example_engine ''addr1'' (Bound ''ShowBalance'') (Bound ''ShowError'')
        example_sdk) =
     [Sent \<lparr>URL = ''http://localhost:5000/api/v1/balance/addr1'', Verb = ''GET'',
            Headers = [(''Content-Type'', ''application/json''),
                       (''Authorization'', ''Bearer tok'')],
            Content = [],
            OnProcessRequestComplete =
              BindOnBalanceResponse (Bound ''ShowBalance'') (Bound ''ShowError'')\<rparr>]
   \<and> Deserialize example_engine ''{"unexpected":"shape"}'' =
      Some [(''unexpected'', FJsonValueString ''shape'')]
   \<and> new_effects
        (GetBalance example_engine ''addr1'' (Bound ''ShowBalance'') (Bound ''ShowError'')
           example_sdk)
        (ProcessRequestComplete example_engine
          \<lparr>URL = ''http://localhost:5000/api/v1/balance/addr1'', Verb = ''GET'',
           Headers = [(''Content-Type'', ''application/json''),
                      (''Authorization'', ''Bearer tok'')],
           Content = [],
           OnProcessRequestComplete =
             BindOnBalanceResponse (Bound ''ShowBalance'') (Bound ''ShowError'')\<rparr>
          (Some \<lparr>GetResponseCode = 200, GetContentAsString = ''{"unexpected":"shape"}''\<rparr>)
          True
          (GetBalance example_engine ''addr1'' (Bound ''ShowBalance'') (Bound ''ShowError'')
             example_sdk)) =
        [BalanceReceived ''ShowBalance'' (Finite 0)]
   \<and> ErrorReported ''ShowError'' ''Failed to parse balance response''
        \<notin> set (new_effects
        (GetBalance example_engine ''addr1'' (Bound ''ShowBalance'') (Bound ''ShowError'')
           example_sdk)
        (ProcessRequestComplete example_engine
          \<lparr>URL = ''http://localhost:5000/api/v1/balance/addr1'', Verb = ''GET'',
           Headers = [(''Content-Type'', ''application/json''),
                      (''Authorization'', ''Bearer tok'')],
           Content = [],
           OnProcessRequestComplete =
             BindOnBalanceResponse (Bound ''ShowBalance'') (Bound ''ShowError'')\<rparr>
          (Some \<lparr>GetResponseCode = 200, GetContentAsString = ''{"unexpected":"shape"}''\<rparr>)
          True
          (GetBalance example_engine ''addr1'' (Bound ''ShowBalance'') (Bound ''ShowError'')
             example_sdk)))\<close>
proof -
  have idle: "EnsureAuthenticated example_engine example_sdk = example_sdk"
    by (simp add: EnsureAuthenticated_def example_engine_def example_sdk_def)
  have sent: "GetBalance example_engine ''addr1'' (Bound ''ShowBalance'') (Bound ''ShowError'')
        example_sdk =
     example_sdk\<lparr>Trace :=
       [Sent \<lparr>URL = ''http://localhost:5000/api/v1/balance/addr1'', Verb = ''GET'',
            Headers = [(''Content-Type'', ''application/json''),
                       (''Authorization'', ''Bearer tok'')],
            Content = [],
            OnProcessRequestComplete =
              BindOnBalanceResponse (Bound ''ShowBalance'') (Bound ''ShowError'')\<rparr>]\<rparr>"
    by (simp add: GetBalance_eq idle CreateRequest_eq) (simp add: example_sdk_def)
  have good: \<open>Deserialize example_engine ''{"unexpected":"shape"}'' =
      Some [(''unexpected'', FJsonValueString ''shape'')]\<close>
    by (simp only: example_engine_def engine.simps read_unexpected_shape)
  have run: \<open>new_effects
        (GetBalance example_engine ''addr1'' (Bound ''ShowBalance'') (Bound ''ShowError'')
           example_sdk)
        (ProcessRequestComplete example_engine
          \<lparr>URL = ''http://localhost:5000/api/v1/balance/addr1'', Verb = ''GET'',
           Headers = [(''Content-Type'', ''application/json''),
                      (''Authorization'', ''Bearer tok'')],
           Content = [],
           OnProcessRequestComplete =
             BindOnBalanceResponse (Bound ''ShowBalance'') (Bound ''ShowError'')\<rparr>
          (Some \<lparr>GetResponseCode = 200, GetContentAsString = ''{"unexpected":"shape"}''\<rparr>)
          True
          (GetBalance example_engine ''addr1'' (Bound ''ShowBalance'') (Bound ''ShowError'')
             example_sdk)) =
        [BalanceReceived ''ShowBalance'' (Finite 0)]\<close>
    by (simp add: sent ProcessRequestComplete_def OnBalanceResponse_def IsValid_def good
          ExecuteIfBound_Balance_def GetNumberField_def GetField_def new_effects_def
          float_of_double_zero)
  have first: "new_effects example_sdk
     (GetBalance example_engine ''addr1'' (Bound ''ShowBalance'') (Bound ''ShowError'')
        example_sdk) =
     [Sent \<lparr>URL = ''http://localhost:5000/api/v1/balance/addr1'', Verb = ''GET'',
            Headers = [(''Content-Type'', ''application/json''),
                       (''Authorization'', ''Bearer tok'')],
            Content = [],
            OnProcessRequestComplete =
              BindOnBalanceResponse (Bound ''ShowBalance'') (Bound ''ShowError'')\<rparr>]"
    by (simp add: sent new_effects_def) (simp add: example_sdk_def)
  show ?thesis
    unfolding run first using good by simp
qed

lemma ExecuteIfBound_Error_members:
  "AuthToken (ExecuteIfBound_Error D Msg this) = AuthToken this"
  "TokenExpirationTime (ExecuteIfBound_Error D Msg this) = TokenExpirationTime this"
  by (cases D; simp add: ExecuteIfBound_Error_def)+

lemma ExecuteIfBound_Balance_members:
  "AuthToken (ExecuteIfBound_Balance D Balance this) = AuthToken this"
  "TokenExpirationTime (ExecuteIfBound_Balance D Balance this) = TokenExpirationTime this"
  by (cases D; simp add: ExecuteIfBound_Balance_def)+

lemma ExecuteIfBound_Transaction_members:
  "AuthToken (ExecuteIfBound_Transaction D TransactionHash this) = AuthToken this"
  "TokenExpirationTime (ExecuteIfBound_Transaction D TransactionHash this) =
     TokenExpirationTime this"
  by (cases D; simp add: ExecuteIfBound_Transaction_def)+

lemma OnBalanceResponse_cases:
  "(\<exists>Balance. OnBalanceResponse E Request Response bWasSuccessful OnSuccess OnError this =
       ExecuteIfBound_Balance OnSuccess Balance this)
   \<or> (\<exists>Msg. OnBalanceResponse E Request Response bWasSuccessful OnSuccess OnError this =
       ExecuteIfBound_Error OnError Msg this)"
proof (cases "bWasSuccessful \<and> IsValid Response")
  case True
  then obtain r where r: "Response = Some r" "bWasSuccessful = True"
    by (auto simp add: IsValid_def)
  show ?thesis
    unfolding r OnBalanceResponse_completed
    by (cases "Deserialize E (GetContentAsString r)") auto
next
  case False
  from OnBalanceResponse_failed [OF this] show ?thesis by blast
qed

lemma OnTransactionResponse_cases:
  "(\<exists>TransactionHash.
       OnTransactionResponse E Request Response bWasSuccessful OnSuccess OnError this =
       ExecuteIfBound_Transaction OnSuccess TransactionHash this)
   \<or> (\<exists>Msg. OnTransactionResponse E Request Response bWasSuccessful OnSuccess OnError this =
       ExecuteIfBound_Error OnError Msg this)"
proof (cases "bWasSuccessful \<and> IsValid Response")
  case True
  then obtain r where r: "Response = Some r" "bWasSuccessful = True"
    by (auto simp add: IsValid_def)
  show ?thesis
    unfolding r OnTransactionResponse_completed
    by (cases "Deserialize E (GetContentAsString r)") auto
next
  case False
  from OnTransactionResponse_failed [OF this] show ?thesis by blast
qed

text \<open>
  Claim C4. When \<^verbatim>\<open>OnAuthenticationResponse\<close> is called with the flag false or with a
  response that is not valid, \<^verbatim>\<open>AuthToken\<close> and \<^verbatim>\<open>TokenExpirationTime\<close> keep their values,
  and the only effect is one line in the log: no delegate of the caller is executed.
\<close>

theorem authentication_failure_is_silent:
  assumes "\<not> (bWasSuccessful \<and> IsValid Response)"
  shows "AuthToken (OnAuthenticationResponse E Request Response bWasSuccessful this) =
           AuthToken this
    \<and> TokenExpirationTime (OnAuthenticationResponse E Request Response bWasSuccessful this) =
           TokenExpirationTime this
    \<and> new_effects this (OnAuthenticationResponse E Request Response bWasSuccessful this) =
           [Logged Error ''PlayerGold SDK authentication failed'']
    \<and> \<not> list_ex is_callback
           (new_effects this (OnAuthenticationResponse E Request Response bWasSuccessful this))"
proof -
  note failed = OnAuthenticationResponse_failed [OF assms, of E Request this]
  have log: "new_effects this (OnAuthenticationResponse E Request Response bWasSuccessful this) =
           [Logged Error ''PlayerGold SDK authentication failed'']"
    by (rule new_effects_append) (simp add: failed)
  show ?thesis
    by (simp add: log) (simp add: failed)
qed

text \<open>
  The theorem on a response that arrives with the flag false, and on a missing
  response.
\<close>

theorem authentication_failure_is_silent_witness:
  "\<not> (False \<and> IsValid (Some \<lparr>GetResponseCode = 401, GetContentAsString = ''invalid api key''\<rparr>))
   \<and> AuthToken (OnAuthenticationResponse example_engine HttpModule_CreateRequest
        (Some \<lparr>GetResponseCode = 401, GetContentAsString = ''invalid api key''\<rparr>) False
        example_sdk) = AuthToken example_sdk
   \<and> TokenExpirationTime (OnAuthenticationResponse example_engine HttpModule_CreateRequest
        (Some \<lparr>GetResponseCode = 401, GetContentAsString = ''invalid api key''\<rparr>) False
        example_sdk) = TokenExpirationTime example_sdk
   \<and> new_effects example_sdk (OnAuthenticationResponse example_engine HttpModule_CreateRequest
        (Some \<lparr>GetResponseCode = 401, GetContentAsString = ''invalid api key''\<rparr>) False
        example_sdk) = [Logged Error ''PlayerGold SDK authentication failed'']
   \<and> \<not> (True \<and> IsValid None)
   \<and> new_effects example_sdk (OnAuthenticationResponse example_engine HttpModule_CreateRequest
        None True example_sdk) = [Logged Error ''PlayerGold SDK authentication failed'']"
proof -
  have h1: "\<not> (False
      \<and> IsValid (Some \<lparr>GetResponseCode = 401, GetContentAsString = ''invalid api key''\<rparr>))"
    by simp
  have h2: "\<not> (True \<and> IsValid None)"
    by (simp add: IsValid_def)
  note T1 = authentication_failure_is_silent [OF h1, of example_engine
      HttpModule_CreateRequest example_sdk]
  note T2 = authentication_failure_is_silent [OF h2, of example_engine
      HttpModule_CreateRequest example_sdk]
  show ?thesis
    by (intro conjI)
       (rule h1 h2 T1 [THEN conjunct1] T1 [THEN conjunct2, THEN conjunct1]
          T1 [THEN conjunct2, THEN conjunct2, THEN conjunct1]
          T2 [THEN conjunct2, THEN conjunct2, THEN conjunct1])+
qed

text \<open>
  Claim C6. When \<^verbatim>\<open>OnBalanceResponse\<close> or \<^verbatim>\<open>OnTransactionResponse\<close> is called with the flag
  false or with a response that is not valid, the error delegate is executed on the
  body of the response as it is when there is a response, and on the literal
  ``Request failed'' when there is none.
\<close>

theorem transport_failure_message:
  assumes "\<not> (bWasSuccessful \<and> IsValid Response)"
  shows "OnBalanceResponse E Request Response bWasSuccessful OnBalance OnError this =
           ExecuteIfBound_Error OnError
             (case Response of Some r \<Rightarrow> GetContentAsString r | None \<Rightarrow> ''Request failed'')
             this
    \<and> OnTransactionResponse E Request Response bWasSuccessful OnCreated OnError this =
           ExecuteIfBound_Error OnError
             (case Response of Some r \<Rightarrow> GetContentAsString r | None \<Rightarrow> ''Request failed'')
             this
    \<and> new_effects this
         (OnBalanceResponse E Request Response bWasSuccessful OnBalance (Bound g) this) =
           [ErrorReported g
             (case Response of Some r \<Rightarrow> GetContentAsString r | None \<Rightarrow> ''Request failed'')]
    \<and> new_effects this
         (OnTransactionResponse E Request Response bWasSuccessful OnCreated (Bound g) this) =
           [ErrorReported g
             (case Response of Some r \<Rightarrow> GetContentAsString r | None \<Rightarrow> ''Request failed'')]"
  by (simp add: OnBalanceResponse_failed [OF assms] OnTransactionResponse_failed [OF assms]
        new_effects_Error)

text \<open>
  The theorem on a failed request whose response has the body
  ``insufficient permissions'', and on a failed request without a response.
\<close>

theorem transport_failure_message_witness:
  "\<not> (False
      \<and> IsValid (Some \<lparr>GetResponseCode = 403,
            GetContentAsString = ''insufficient permissions''\<rparr>))
   \<and> new_effects example_sdk
        (OnBalanceResponse example_engine HttpModule_CreateRequest
          (Some \<lparr>GetResponseCode = 403, GetContentAsString = ''insufficient permissions''\<rparr>)
          False (Bound ''ShowBalance'') (Bound ''ShowError'') example_sdk) =
        [ErrorReported ''ShowError'' ''insufficient permissions'']
   \<and> new_effects example_sdk
        (OnTransactionResponse example_engine HttpModule_CreateRequest
          (Some \<lparr>GetResponseCode = 403, GetContentAsString = ''insufficient permissions''\<rparr>)
          False (Bound ''ShowHash'') (Bound ''ShowError'') example_sdk) =
        [ErrorReported ''ShowError'' ''insufficient permissions'']
   \<and> \<not> (False \<and> IsValid None)
   \<and> new_effects example_sdk
        (OnBalanceResponse example_engine HttpModule_CreateRequest None False
          (Bound ''ShowBalance'') (Bound ''ShowError'') example_sdk) =
        [ErrorReported ''ShowError'' ''Request failed'']
   \<and> new_effects example_sdk
        (OnTransactionResponse example_engine HttpModule_CreateRequest None False
          (Bound ''ShowHash'') (Bound ''ShowError'') example_sdk) =
        [ErrorReported ''ShowError'' ''Request failed'']"
proof -
  have h1: "\<not> (False
      \<and> IsValid (Some \<lparr>GetResponseCode = 403,
            GetContentAsString = ''insufficient permissions''\<rparr>))"
    by simp
  have h2: "\<not> (False \<and> IsValid None)"
    by simp
  note T1 = transport_failure_message [OF h1, where E = example_engine
      and Request = HttpModule_CreateRequest and this = example_sdk
      and OnBalance = "Bound ''ShowBalance''" and OnCreated = "Bound ''ShowHash''"
      and g = "''ShowError''"]
  note T2 = transport_failure_message [OF h2, where E = example_engine
      and Request = HttpModule_CreateRequest and this = example_sdk
      and OnBalance = "Bound ''ShowBalance''" and OnCreated = "Bound ''ShowHash''"
      and g = "''ShowError''"]
  note sel = option.case IHttpResponse.simps
  from T1 [THEN conjunct2, THEN conjunct2, THEN conjunct1]
  have a: "new_effects example_sdk
        (OnBalanceResponse example_engine HttpModule_CreateRequest
          (Some \<lparr>GetResponseCode = 403, GetContentAsString = ''insufficient permissions''\<rparr>)
          False (Bound ''ShowBalance'') (Bound ''ShowError'') example_sdk) =
        [ErrorReported ''ShowError'' ''insufficient permissions'']"
    by (simp only: sel)
  from T1 [THEN conjunct2, THEN conjunct2, THEN conjunct2]
  have b: "new_effects example_sdk
        (OnTransactionResponse example_engine HttpModule_CreateRequest
          (Some \<lparr>GetResponseCode = 403, GetContentAsString = ''insufficient permissions''\<rparr>)
          False (Bound ''ShowHash'') (Bound ''ShowError'') example_sdk) =
        [ErrorReported ''ShowError'' ''insufficient permissions'']"
    by (simp only: sel)
  from T2 [THEN conjunct2, THEN conjunct2, THEN conjunct1]
  have c: "new_effects example_sdk
        (OnBalanceResponse example_engine HttpModule_CreateRequest None False
          (Bound ''ShowBalance'') (Bound ''ShowError'') example_sdk) =
        [ErrorReported ''ShowError'' ''Request failed'']"
    by (simp only: sel)
  from T2 [THEN conjunct2, THEN conjunct2, THEN conjunct2]
  have d: "new_effects example_sdk
        (OnTransactionResponse example_engine HttpModule_CreateRequest None False
          (Bound ''ShowHash'') (Bound ''ShowError'') example_sdk) =
        [ErrorReported ''ShowError'' ''Request failed'']"
    by (simp only: sel)
  show ?thesis
    by (intro conjI) (rule h1 h2 a b c d)+
qed

lemma one_effect_Balance:
  "length (new_effects this (ExecuteIfBound_Balance D Balance this)) \<le> 1
   \<and> list_all is_callback (new_effects this (ExecuteIfBound_Balance D Balance this))"
  by (cases D) (simp_all add: new_effects_Balance)

lemma one_effect_Transaction:
  "length (new_effects this (ExecuteIfBound_Transaction D TransactionHash this)) \<le> 1
   \<and> list_all is_callback (new_effects this (ExecuteIfBound_Transaction D TransactionHash this))"
  by (cases D) (simp_all add: new_effects_Transaction)

lemma one_effect_Error:
  "length (new_effects this (ExecuteIfBound_Error D Msg this)) \<le> 1
   \<and> list_all is_callback (new_effects this (ExecuteIfBound_Error D Msg this))"
  by (cases D) (simp_all add: new_effects_Error)

text \<open>
  Claim C9, as the code has it. Completing a request runs the handler bound to it, and
  each of \<^verbatim>\<open>OnBalanceResponse\<close> and \<^verbatim>\<open>OnTransactionResponse\<close> amounts to one
  \<^verbatim>\<open>ExecuteIfBound\<close> on one of its two delegates. So a completion adds at most one
  effect, a callback; with both delegates bound it is exactly one call of exactly one
  of the two functions; and with the delegates unbound nothing is called.
\<close>

theorem one_delegate_executed_once:
  "ProcessRequestComplete E
      (Request\<lparr>OnProcessRequestComplete := BindOnBalanceResponse OnBalance OnError\<rparr>)
      Response bWasSuccessful this =
    OnBalanceResponse E
      (Request\<lparr>OnProcessRequestComplete := BindOnBalanceResponse OnBalance OnError\<rparr>)
      Response bWasSuccessful OnBalance OnError this
   \<and> ProcessRequestComplete E
      (Request\<lparr>OnProcessRequestComplete := BindOnTransactionResponse OnCreated OnError\<rparr>)
      Response bWasSuccessful this =
    OnTransactionResponse E
      (Request\<lparr>OnProcessRequestComplete := BindOnTransactionResponse OnCreated OnError\<rparr>)
      Response bWasSuccessful OnCreated OnError this
   \<and> ((\<exists>Balance. OnBalanceResponse E Request Response bWasSuccessful OnBalance OnError this =
        ExecuteIfBound_Balance OnBalance Balance this)
    \<or> (\<exists>Msg. OnBalanceResponse E Request Response bWasSuccessful OnBalance OnError this =
        ExecuteIfBound_Error OnError Msg this))
   \<and> length (new_effects this
        (OnBalanceResponse E Request Response bWasSuccessful OnBalance OnError this)) \<le> 1
   \<and> list_all is_callback (new_effects this
        (OnBalanceResponse E Request Response bWasSuccessful OnBalance OnError this))
   \<and> ((\<exists>Balance. new_effects this
          (OnBalanceResponse E Request Response bWasSuccessful (Bound f) (Bound g) this) =
          [BalanceReceived f Balance])
      \<or> (\<exists>Msg. new_effects this
          (OnBalanceResponse E Request Response bWasSuccessful (Bound f) (Bound g) this) =
          [ErrorReported g Msg]))
   \<and> ((\<exists>TransactionHash.
        OnTransactionResponse E Request Response bWasSuccessful OnCreated OnError this =
        ExecuteIfBound_Transaction OnCreated TransactionHash this)
    \<or> (\<exists>Msg. OnTransactionResponse E Request Response bWasSuccessful OnCreated OnError this =
        ExecuteIfBound_Error OnError Msg this))
   \<and> length (new_effects this
        (OnTransactionResponse E Request Response bWasSuccessful OnCreated OnError this)) \<le> 1
   \<and> list_all is_callback (new_effects this
        (OnTransactionResponse E Request Response bWasSuccessful OnCreated OnError this))
   \<and> ((\<exists>TransactionHash. new_effects this
          (OnTransactionResponse E Request Response bWasSuccessful (Bound f) (Bound g) this) =
          [TransactionCreated f TransactionHash])
      \<or> (\<exists>Msg. new_effects this
          (OnTransactionResponse E Request Response bWasSuccessful (Bound f) (Bound g) this) =
          [ErrorReported g Msg]))
   \<and> new_effects this
        (OnBalanceResponse E Request Response bWasSuccessful Unbound Unbound this) = []
   \<and> new_effects this
        (OnTransactionResponse E Request Response bWasSuccessful Unbound Unbound this) = []"
proof -
  note bal = OnBalanceResponse_cases [of E Request Response bWasSuccessful]
  note tx = OnTransactionResponse_cases [of E Request Response bWasSuccessful]
  have b1: "length (new_effects this
        (OnBalanceResponse E Request Response bWasSuccessful OnBalance OnError this)) \<le> 1
     \<and> list_all is_callback (new_effects this
        (OnBalanceResponse E Request Response bWasSuccessful OnBalance OnError this))"
    using bal [of OnBalance OnError this] one_effect_Balance [of this OnBalance]
      one_effect_Error [of this OnError]
    by (elim disjE exE) simp_all
  have b2: "(\<exists>Balance. new_effects this
          (OnBalanceResponse E Request Response bWasSuccessful (Bound f) (Bound g) this) =
          [BalanceReceived f Balance])
      \<or> (\<exists>Msg. new_effects this
          (OnBalanceResponse E Request Response bWasSuccessful (Bound f) (Bound g) this) =
          [ErrorReported g Msg])"
    using bal [of "Bound f" "Bound g" this]
    by (elim disjE exE) (simp_all add: new_effects_Balance new_effects_Error)
  have b3: "new_effects this
        (OnBalanceResponse E Request Response bWasSuccessful Unbound Unbound this) = []"
    using bal [of Unbound Unbound this]
    by (elim disjE exE) (simp_all add: new_effects_Balance new_effects_Error)
  have t1: "length (new_effects this
        (OnTransactionResponse E Request Response bWasSuccessful OnCreated OnError this)) \<le> 1
     \<and> list_all is_callback (new_effects this
        (OnTransactionResponse E Request Response bWasSuccessful OnCreated OnError this))"
    using tx [of OnCreated OnError this] one_effect_Transaction [of this OnCreated]
      one_effect_Error [of this OnError]
    by (elim disjE exE) simp_all
  have t2: "(\<exists>TransactionHash. new_effects this
          (OnTransactionResponse E Request Response bWasSuccessful (Bound f) (Bound g) this) =
          [TransactionCreated f TransactionHash])
      \<or> (\<exists>Msg. new_effects this
          (OnTransactionResponse E Request Response bWasSuccessful (Bound f) (Bound g) this) =
          [ErrorReported g Msg])"
    using tx [of "Bound f" "Bound g" this]
    by (elim disjE exE) (simp_all add: new_effects_Transaction new_effects_Error)
  have t3: "new_effects this
        (OnTransactionResponse E Request Response bWasSuccessful Unbound Unbound this) = []"
    using tx [of Unbound Unbound this]
    by (elim disjE exE) (simp_all add: new_effects_Transaction new_effects_Error)
  have d1: "ProcessRequestComplete E
      (Request\<lparr>OnProcessRequestComplete := BindOnBalanceResponse OnBalance OnError\<rparr>)
      Response bWasSuccessful this =
    OnBalanceResponse E
      (Request\<lparr>OnProcessRequestComplete := BindOnBalanceResponse OnBalance OnError\<rparr>)
      Response bWasSuccessful OnBalance OnError this"
    by (simp add: ProcessRequestComplete_def)
  have d2: "ProcessRequestComplete E
      (Request\<lparr>OnProcessRequestComplete := BindOnTransactionResponse OnCreated OnError\<rparr>)
      Response bWasSuccessful this =
    OnTransactionResponse E
      (Request\<lparr>OnProcessRequestComplete := BindOnTransactionResponse OnCreated OnError\<rparr>)
      Response bWasSuccessful OnCreated OnError this"
    by (simp add: ProcessRequestComplete_def)
  note B = bal [of OnBalance OnError this] and T = tx [of OnCreated OnError this]
  show ?thesis
    by (intro conjI)
       (rule d1 d2 B T b1 [THEN conjunct1] b1 [THEN conjunct2] b2 b3
          t1 [THEN conjunct1] t1 [THEN conjunct2] t2 t3)+
qed

text \<open>
  Claim C9 as stated fails. \<^verbatim>\<open>GetBalance\<close> is called with the error delegate unbound and
  its request fails without a response: the completion invokes no callback. The same
  holds for \<^verbatim>\<open>OnTransactionResponse\<close>.
\<close>

theorem unbound_delegate_counterexample:
  "new_effects example_sdk
     (GetBalance example_engine ''addr1'' (Bound ''ShowBalance'') Unbound example_sdk) =
     [Sent \<lparr>URL = ''http://localhost:5000/api/v1/balance/addr1'', Verb = ''GET'',
            Headers = [(''Content-Type'', ''application/json''),
                       (''Authorization'', ''Bearer tok'')],
            Content = [],
            OnProcessRequestComplete = BindOnBalanceResponse (Bound ''ShowBalance'') Unbound\<rparr>]
   \<and> new_effects
        (GetBalance example_engine ''addr1'' (Bound ''ShowBalance'') Unbound example_sdk)
        (ProcessRequestComplete example_engine
          \<lparr>URL = ''http://localhost:5000/api/v1/balance/addr1'', Verb = ''GET'',
           Headers = [(''Content-Type'', ''application/json''),
                      (''Authorization'', ''Bearer tok'')],
           Content = [],
           OnProcessRequestComplete = BindOnBalanceResponse (Bound ''ShowBalance'') Unbound\<rparr>
          None False
          (GetBalance example_engine ''addr1'' (Bound ''ShowBalance'') Unbound example_sdk)) = []
   \<and> new_effects example_sdk
        (OnTransactionResponse example_engine HttpModule_CreateRequest None False
           (Bound ''ShowHash'') Unbound example_sdk) = []"
proof -
  have idle: "EnsureAuthenticated example_engine example_sdk = example_sdk"
    by (simp add: EnsureAuthenticated_def example_engine_def example_sdk_def)
  have sent: "GetBalance example_engine ''addr1'' (Bound ''ShowBalance'') Unbound example_sdk =
     example_sdk\<lparr>Trace :=
       [Sent \<lparr>URL = ''http://localhost:5000/api/v1/balance/addr1'', Verb = ''GET'',
            Headers = [(''Content-Type'', ''application/json''),
                       (''Authorization'', ''Bearer tok'')],
            Content = [],
            OnProcessRequestComplete = BindOnBalanceResponse (Bound ''ShowBalance'') Unbound\<rparr>]\<rparr>"
    by (simp add: GetBalance_eq idle CreateRequest_eq) (simp add: example_sdk_def)
  show ?thesis
    by (simp add: sent ProcessRequestComplete_def OnBalanceResponse_def
          OnTransactionResponse_def IsValid_def ExecuteIfBound_Error_def new_effects_def)
       (simp add: example_sdk_def)
qed

lemma triggers_after_EnsureAuthenticated:
  assumes "Trace after = Trace (EnsureAuthenticated E this) @ [Sent Request]"
    and "OnProcessRequestComplete Request \<noteq> BindOnAuthenticationResponse"
  shows "triggers_authenticate this after
    \<longleftrightarrow> AuthToken this = [] \<or> Seconds E \<ge> TokenExpirationTime this - 300"
proof -
  have "Trace after = Trace this @
       ((if AuthToken this = [] \<or> Seconds E \<ge> TokenExpirationTime this - 300
        then [Sent ((CreateRequest this ''/auth/token'' ''POST'')
                \<lparr>Content := Serialize E [(''api_key'', FJsonValueString (ApiKey this))],
                 OnProcessRequestComplete := BindOnAuthenticationResponse\<rparr>)]
        else []) @ [Sent Request])"
    by (simp add: assms(1) EnsureAuthenticated_Trace)
  from new_effects_append [OF this] assms(2) show ?thesis
    by (simp add: triggers_authenticate_def)
qed

text \<open>
  Claim C8, as the code has it. None of \<^verbatim>\<open>GetBalance\<close>, \<^verbatim>\<open>CreateTransaction\<close>,
  \<^verbatim>\<open>GetTransaction\<close>, \<^verbatim>\<open>GetNetworkStatus\<close>, \<^verbatim>\<open>InitializeSDK\<close>, \<^verbatim>\<open>OnBalanceResponse\<close> and
  \<^verbatim>\<open>OnTransactionResponse\<close> changes the token or its expiry (\<^verbatim>\<open>IsAuthenticated\<close> is
  \<^verbatim>\<open>const\<close> and returns a truth value); \<^verbatim>\<open>Initialize\<close> resets the expiry to 0. The three
  operations that call \<^verbatim>\<open>EnsureAuthenticated\<close> trigger an authentication request
  exactly when the token is empty or the clock has reached the expiry minus 300
  seconds. \<^verbatim>\<open>GetNetworkStatus\<close> never triggers one, \<^verbatim>\<open>InitializeSDK\<close> always does, and
  \<^verbatim>\<open>IsAuthenticated\<close> tests the token for emptiness only.
\<close>

theorem session_frame_and_renewal:
  "AuthToken (GetBalance E Address OnBalance OnError this) = AuthToken this
   \<and> TokenExpirationTime (GetBalance E Address OnBalance OnError this) =
        TokenExpirationTime this
   \<and> AuthToken (CreateTransaction E FromAddress ToAddress Amount PrivateKey OnCreated OnError
        this) = AuthToken this
   \<and> TokenExpirationTime (CreateTransaction E FromAddress ToAddress Amount PrivateKey OnCreated
        OnError this) = TokenExpirationTime this
   \<and> AuthToken (GetTransaction E TransactionHash this) = AuthToken this
   \<and> TokenExpirationTime (GetTransaction E TransactionHash this) = TokenExpirationTime this
   \<and> AuthToken (GetNetworkStatus this) = AuthToken this
   \<and> TokenExpirationTime (GetNetworkStatus this) = TokenExpirationTime this
   \<and> AuthToken (InitializeSDK E InApiKey InApiUrl this) = AuthToken this
   \<and> TokenExpirationTime (InitializeSDK E InApiKey InApiUrl this) = TokenExpirationTime this
   \<and> AuthToken (OnBalanceResponse E Request Response bWasSuccessful OnBalance OnError this) =
        AuthToken this
   \<and> TokenExpirationTime
        (OnBalanceResponse E Request Response bWasSuccessful OnBalance OnError this) =
        TokenExpirationTime this
   \<and> AuthToken (OnTransactionResponse E Request Response bWasSuccessful OnCreated OnError this) =
        AuthToken this
   \<and> TokenExpirationTime
        (OnTransactionResponse E Request Response bWasSuccessful OnCreated OnError this) =
        TokenExpirationTime this
   \<and> AuthToken (Initialize this) = AuthToken this
   \<and> TokenExpirationTime (Initialize this) = 0
   \<and> (triggers_authenticate this (GetBalance E Address OnBalance OnError this)
        \<longleftrightarrow> AuthToken this = [] \<or> Seconds E \<ge> TokenExpirationTime this - 300)
   \<and> (triggers_authenticate this
          (CreateTransaction E FromAddress ToAddress Amount PrivateKey OnCreated OnError this)
        \<longleftrightarrow> AuthToken this = [] \<or> Seconds E \<ge> TokenExpirationTime this - 300)
   \<and> (triggers_authenticate this (GetTransaction E TransactionHash this)
        \<longleftrightarrow> AuthToken this = [] \<or> Seconds E \<ge> TokenExpirationTime this - 300)
   \<and> \<not> triggers_authenticate this (GetNetworkStatus this)
   \<and> triggers_authenticate this (InitializeSDK E InApiKey InApiUrl this)
   \<and> (IsAuthenticated this \<longleftrightarrow> AuthToken this \<noteq> [])"
proof -
  have frame:
    "AuthToken (GetBalance E Address OnBalance OnError this) = AuthToken this"
    "TokenExpirationTime (GetBalance E Address OnBalance OnError this) =
        TokenExpirationTime this"
    "AuthToken (CreateTransaction E FromAddress ToAddress Amount PrivateKey OnCreated OnError
        this) = AuthToken this"
    "TokenExpirationTime (CreateTransaction E FromAddress ToAddress Amount PrivateKey OnCreated
        OnError this) = TokenExpirationTime this"
    "AuthToken (GetTransaction E TransactionHash this) = AuthToken this"
    "TokenExpirationTime (GetTransaction E TransactionHash this) = TokenExpirationTime this"
    "AuthToken (GetNetworkStatus this) = AuthToken this"
    "TokenExpirationTime (GetNetworkStatus this) = TokenExpirationTime this"
    "AuthToken (InitializeSDK E InApiKey InApiUrl this) = AuthToken this"
    "TokenExpirationTime (InitializeSDK E InApiKey InApiUrl this) = TokenExpirationTime this"
    "AuthToken (Initialize this) = AuthToken this"
    "TokenExpirationTime (Initialize this) = 0"
    by (simp_all add: GetBalance_eq CreateTransaction_eq GetTransaction_eq GetNetworkStatus_eq
          InitializeSDK_eq EnsureAuthenticated_members Initialize_def UE_LOG_def)
  have handlers:
    "AuthToken (OnBalanceResponse E Request Response bWasSuccessful OnBalance OnError this) =
        AuthToken this"
    "TokenExpirationTime
        (OnBalanceResponse E Request Response bWasSuccessful OnBalance OnError this) =
        TokenExpirationTime this"
    "AuthToken (OnTransactionResponse E Request Response bWasSuccessful OnCreated OnError this) =
        AuthToken this"
    "TokenExpirationTime
        (OnTransactionResponse E Request Response bWasSuccessful OnCreated OnError this) =
        TokenExpirationTime this"
    using OnBalanceResponse_cases [of E Request Response bWasSuccessful OnBalance OnError this]
      OnTransactionResponse_cases [of E Request Response bWasSuccessful OnCreated OnError this]
    by (auto simp add: ExecuteIfBound_Error_members ExecuteIfBound_Balance_members
          ExecuteIfBound_Transaction_members)
  have bal: "triggers_authenticate this (GetBalance E Address OnBalance OnError this)
        \<longleftrightarrow> AuthToken this = [] \<or> Seconds E \<ge> TokenExpirationTime this - 300"
    by (rule triggers_after_EnsureAuthenticated, simp add: GetBalance_eq, simp)
  have tx: "triggers_authenticate this
          (CreateTransaction E FromAddress ToAddress Amount PrivateKey OnCreated OnError this)
        \<longleftrightarrow> AuthToken this = [] \<or> Seconds E \<ge> TokenExpirationTime this - 300"
    by (rule triggers_after_EnsureAuthenticated, simp add: CreateTransaction_eq, simp)
  have get: "triggers_authenticate this (GetTransaction E TransactionHash this)
        \<longleftrightarrow> AuthToken this = [] \<or> Seconds E \<ge> TokenExpirationTime this - 300"
    by (rule triggers_after_EnsureAuthenticated, simp add: GetTransaction_eq,
        simp add: CreateRequest_eq)
  have "new_effects this (GetNetworkStatus this) =
      [Sent (CreateRequest this ''/network/status'' ''GET'')]"
    by (rule new_effects_append) (simp add: GetNetworkStatus_eq)
  then have net: "\<not> triggers_authenticate this (GetNetworkStatus this)"
    by (simp add: triggers_authenticate_def CreateRequest_eq)
  have "new_effects this (InitializeSDK E InApiKey InApiUrl this) =
         [Sent \<lparr>URL = InApiUrl @ ''/auth/token'', Verb = ''POST'',
                Headers = (''Content-Type'', ''application/json'')
                  # (if AuthToken this = [] then []
                     else [(''Authorization'', ''Bearer '' @ AuthToken this)]),
                Content = Serialize E [(''api_key'', FJsonValueString InApiKey)],
                OnProcessRequestComplete = BindOnAuthenticationResponse\<rparr>]"
    by (rule new_effects_append) (simp add: InitializeSDK_eq)
  then have init: "triggers_authenticate this (InitializeSDK E InApiKey InApiUrl this)"
    by (simp add: triggers_authenticate_def)
  have isauth: "IsAuthenticated this \<longleftrightarrow> AuthToken this \<noteq> []"
    by (simp add: IsAuthenticated_def)
  show ?thesis
    by (intro conjI) (rule frame handlers bal tx get net init isauth)+
qed

text \<open>
  Claim C8 as stated fails. With a token good until second 4000 and the clock at 1000
  no renewal is due, and \<^verbatim>\<open>InitializeSDK\<close> triggers an authentication request all the
  same. With a token that expired at second 500 renewal is due, and \<^verbatim>\<open>IsAuthenticated\<close>
  answers true. And \<^verbatim>\<open>Initialize\<close>, which is not the response handler, changes the
  expiry from 4000 to 0.
\<close>

theorem renewal_not_decided_counterexample:
  "\<not> (AuthToken example_sdk = []
      \<or> Seconds example_engine \<ge> TokenExpirationTime example_sdk - 300)
   \<and> triggers_authenticate example_sdk
        (InitializeSDK example_engine ''key'' ''http://localhost:5000/api/v1'' example_sdk)
   \<and> Seconds example_engine \<ge>
        TokenExpirationTime (example_sdk\<lparr>TokenExpirationTime := 500\<rparr>) - 300
   \<and> IsAuthenticated (example_sdk\<lparr>TokenExpirationTime := 500\<rparr>)
   \<and> TokenExpirationTime example_sdk = 4000
   \<and> TokenExpirationTime (Initialize example_sdk) = 0"
  by (simp add: example_sdk_def example_engine_def IsAuthenticated_def Initialize_def UE_LOG_def
        InitializeSDK_def Authenticate_def ProcessRequest_def triggers_authenticate_def
        new_effects_def Let_def)

end
